theory Spec2Isabelle
  imports Main
begin

section \<open>Resource-group REST handler (api/restHandler/ResourceGroupRestHandler.go)\<close>

subsection \<open>Data model\<close>

text \<open>
  Go's \<open>error\<close> values. \<open>InvalidGroupType g\<close> is
  \<open>fmt.Errorf("invalid group type %s", g)\<close>; \<open>ComplexValue\<close> is the error of
  \<open>StringifyValue\<close>'s default branch (the rendering of the offending value in its message
  is left out); \<open>ErrSyntax\<close> and \<open>ErrRange\<close> are the two \<open>strconv.NumError\<close>s, with the
  function name and the input; \<open>SyntaxError\<close> and \<open>UnmarshalTypeError\<close> (with the JSON value
  it names) are the two errors of \<open>json.Unmarshal\<close>; \<open>Err\<close> is any error a collaborator
  hands back.
\<close>

datatype error =
    InvalidGroupType string
  | ComplexValue
  | ErrSyntax string string
  | ErrRange string string
  | SyntaxError
  | UnmarshalTypeError string
  | Err string

text \<open>
  \<open>resourceGroup.ResourceGroupType\<close> is a string type: the resolver returns the untyped
  constant \<open>""\<close> for it and the handlers convert a request's \<open>GroupType\<close> with \<open>string(...)\<close>.
\<close>

type_synonym ResourceGroupType = string

text \<open>
  The constants the handler reads from the packages \<open>resourceGroup\<close> and \<open>casbin\<close>. Their
  declarations are outside the two source files, so they are parameters of the model.
\<close>

record constants =
  APP_GROUP :: ResourceGroupType
  ENV_GROUP :: ResourceGroupType
  ResourceApplications :: string
  ResourceEnvironment :: string

text \<open>
  A Go \<open>map[string]bool\<close>: \<open>None\<close> is the nil map (what \<open>var m map[string]bool\<close> holds),
  \<open>Some f\<close> an allocated map with the entries of \<open>f\<close>. \<open>len\<close> of the nil map is 0.
\<close>

type_synonym bool_map = "(string \<rightharpoonup> bool) option"

definition len_map :: "bool_map \<Rightarrow> nat" where
  "len_map m = (case m of None \<Rightarrow> 0 | Some f \<Rightarrow> card (dom f))"

text \<open>One call of the batch authorization engine: token, resource, action, objects.\<close>

datatype enforcer_call = EnforceInBatch string string string "string list"

text \<open>
  The type \<open>func(token string, appObject []string, action string) map[string]bool\<close>. A call
  yields the engine calls it made, in order, and the map it returns.
\<close>

type_synonym AuthFunc = "string \<Rightarrow> string list \<Rightarrow> string \<Rightarrow> enforcer_call list \<times> bool_map"

text \<open>
  \<open>resourceGroup.ResourceGroupDto\<close>, with the fields the handler reads or writes. The struct
  is declared outside the two source files; whatever other fields it has live in the record's
  extension, which every function below carries along unchanged. The identifiers are Go's
  \<open>int\<close> and \<open>int32\<close>; the handler only copies them and compares them with 0, so they are
  integers here. A slice is a list: the handler only takes its length, which is 0 for the nil
  slice as for an empty one.
\<close>

record ResourceGroupDto =
  GroupType :: ResourceGroupType
  ParentResourceId :: int
  ResourceIds :: "int list"
  EnvironmentId :: int
  AppIds :: "int list"
  UserId :: int
  CheckAuthBatch :: "AuthFunc option"

text \<open>
  The request as the handlers see it: the \<open>token\<close> header, the route variables of
  \<open>mux.Vars(r)\<close> (Go reads a missing key of the map as \<open>""\<close>), and what
  \<open>json.NewDecoder(r.Body).Decode(&request)\<close> leaves in \<open>request\<close> together with its error.
\<close>

record 'm http_Request =
  Header_token :: string
  mux_Vars :: "string \<rightharpoonup> string"
  Body_Decode :: "'m ResourceGroupDto_scheme \<times> error option"

definition vars_get :: "(string \<rightharpoonup> string) \<Rightarrow> string \<Rightarrow> string" where
  "vars_get vars key = (case vars key of None \<Rightarrow> [] | Some v \<Rightarrow> v)"

text \<open>
  \<open>ResourceGroupRestHandlerImpl\<close>: its collaborators, each as the outcome of the method the
  handler calls on it. The service methods return a response of type \<open>'r\<close> and an error.
  The logger is left out: its calls neither return a value nor change what is written.
\<close>

record ('m, 'r) ResourceGroupRestHandlerImpl =
  enforcer_EnforceInBatch :: "string \<Rightarrow> string \<Rightarrow> string \<Rightarrow> string list \<Rightarrow> bool_map"
  userService_GetLoggedInUser :: "'m http_Request \<Rightarrow> int \<times> error option"
  validator_Struct :: "'m ResourceGroupDto_scheme \<Rightarrow> error option"
  service_GetActiveResourceGroupList ::
    "string \<Rightarrow> AuthFunc option \<Rightarrow> int \<Rightarrow> ResourceGroupType \<Rightarrow> 'r \<times> error option"
  service_CreateResourceGroup :: "'m ResourceGroupDto_scheme \<Rightarrow> string \<Rightarrow> 'r \<times> error option"
  service_UpdateResourceGroup :: "'m ResourceGroupDto_scheme \<Rightarrow> string \<Rightarrow> 'r \<times> error option"
  service_DeleteResourceGroup ::
    "int \<Rightarrow> ResourceGroupType \<Rightarrow> string \<Rightarrow> AuthFunc option \<Rightarrow> 'r \<times> error option"
  service_CheckResourceGroupPermissions ::
    "'m ResourceGroupDto_scheme \<Rightarrow> string \<Rightarrow> 'r \<times> error option"

subsection \<open>The two batch-authorization strategies and the resolver\<close>

definition checkAppAuthBatch ::
  "constants \<Rightarrow> ('m, 'r) ResourceGroupRestHandlerImpl \<Rightarrow> AuthFunc" where
  "checkAppAuthBatch K handler token appObject action =
     (if length appObject > 0
      then ([EnforceInBatch token (ResourceApplications K) action appObject],
            enforcer_EnforceInBatch handler token (ResourceApplications K) action appObject)
      else ([], None))"

definition checkEnvAuthBatch ::
  "constants \<Rightarrow> ('m, 'r) ResourceGroupRestHandlerImpl \<Rightarrow> AuthFunc" where
  "checkEnvAuthBatch K handler token envObject action =
     (if length envObject > 0
      then ([EnforceInBatch token (ResourceEnvironment K) action envObject],
            enforcer_EnforceInBatch handler token (ResourceEnvironment K) action envObject)
      else ([], None))"

text \<open>
  The resolver returns Go's triple as it is: on the error branch the kind is \<open>""\<close> and the
  function is nil, and \<open>DeleteResourceGroup\<close> goes on to use both.
\<close>

definition getGroupTypeAndAuthFunc ::
  "constants \<Rightarrow> ('m, 'r) ResourceGroupRestHandlerImpl \<Rightarrow> string
     \<Rightarrow> ResourceGroupType \<times> AuthFunc option \<times> error option" where
  "getGroupTypeAndAuthFunc K handler groupType =
     (if groupType = ''env-group''
      then (ENV_GROUP K, Some (checkEnvAuthBatch K handler), None)
      else if groupType = [] \<or> groupType = ''app-group''
      then (APP_GROUP K, Some (checkAppAuthBatch K handler), None)
      else ([], None, Some (InvalidGroupType groupType)))"

subsection \<open>strconv.Atoi\<close>

text \<open>
  \<open>strconv.Atoi\<close> of the Go standard library, for a 64-bit \<open>int\<close>: an optional sign, then
  decimal digits only. The digits are accumulated as \<open>ParseUint\<close> does, which reports a range
  error as soon as the value leaves 64 bits (before it looks at the next character);
  \<open>ParseInt\<close> then checks the signed range. Atoi's fast path for short inputs computes the
  same result. On an error the value Go returns beside it is never read by this program.
\<close>

datatype NumErr = Syntax | Range

definition isDigit :: "char \<Rightarrow> bool" where
  "isDigit c = (48 \<le> (of_char c :: nat) \<and> (of_char c :: nat) \<le> 57)"

definition digitVal :: "char \<Rightarrow> nat" where
  "digitVal c = of_char c - 48"

fun ParseUint10 :: "nat \<Rightarrow> string \<Rightarrow> NumErr + nat" where
  "ParseUint10 n [] = Inr n"
| "ParseUint10 n (c # cs) =
     (if \<not> isDigit c then Inl Syntax
      else if n * 10 + digitVal c > 2 ^ 64 - 1 then Inl Range
      else ParseUint10 (n * 10 + digitVal c) cs)"

definition Atoi :: "string \<Rightarrow> error + int" where
  "Atoi s =
     (let neg = (s \<noteq> [] \<and> hd s = CHR ''-'');
          digits = (if s \<noteq> [] \<and> (hd s = CHR ''+'' \<or> hd s = CHR ''-'') then tl s else s)
      in if digits = [] then Inl (ErrSyntax ''Atoi'' s)
         else case ParseUint10 0 digits of
             Inl Syntax \<Rightarrow> Inl (ErrSyntax ''Atoi'' s)
           | Inl Range \<Rightarrow> Inl (ErrRange ''Atoi'' s)
           | Inr un \<Rightarrow>
               if \<not> neg \<and> un \<ge> 2 ^ 63 then Inl (ErrRange ''Atoi'' s)
               else if neg \<and> un > 2 ^ 63 then Inl (ErrRange ''Atoi'' s)
               else Inr (if neg then - int un else int un))"

subsection \<open>The five handlers\<close>

text \<open>
  What a handler does to the outside, in order: the calls of the struct validator, the call of
  the resource-group service, and the one response written with \<open>common.WriteJsonResp\<close>
  (error, payload, HTTP status).
\<close>

datatype 'r payload = payload_nil | payload_string string | payload_result 'r

datatype ('m, 'r) event =
    call_validator_Struct "'m ResourceGroupDto_scheme"
  | call_GetActiveResourceGroupList string "AuthFunc option" int ResourceGroupType
  | call_CreateResourceGroup "'m ResourceGroupDto_scheme" string
  | call_UpdateResourceGroup "'m ResourceGroupDto_scheme" string
  | call_DeleteResourceGroup int ResourceGroupType string "AuthFunc option"
  | call_CheckResourceGroupPermissions "'m ResourceGroupDto_scheme" string
  | WriteJsonResp "error option" "'r payload" int

definition StatusOK :: int where "StatusOK = 200"
definition StatusBadRequest :: int where "StatusBadRequest = 400"
definition StatusUnauthorized :: int where "StatusUnauthorized = 401"
definition StatusInternalServerError :: int where "StatusInternalServerError = 500"

definition GetActiveResourceGroupList ::
  "constants \<Rightarrow> ('m, 'r) ResourceGroupRestHandlerImpl \<Rightarrow> 'm http_Request \<Rightarrow> ('m, 'r) event list" where
  "GetActiveResourceGroupList K handler r =
     (let token = Header_token r; vars = mux_Vars r in
      case Atoi (vars_get vars ''resourceId'') of
        Inl err \<Rightarrow> [WriteJsonResp (Some err) payload_nil StatusBadRequest]
      | Inr resourceId \<Rightarrow>
         (case getGroupTypeAndAuthFunc K handler (vars_get vars ''groupType'') of
            (groupType, authFunc, Some err) \<Rightarrow> [WriteJsonResp (Some err) payload_nil StatusBadRequest]
          | (groupType, authFunc, None) \<Rightarrow>
              call_GetActiveResourceGroupList token authFunc resourceId groupType #
              (case service_GetActiveResourceGroupList handler token authFunc resourceId groupType of
                 (res, Some err) \<Rightarrow> [WriteJsonResp (Some err) payload_nil StatusInternalServerError]
               | (res, None) \<Rightarrow> [WriteJsonResp None (payload_result res) StatusOK])))"

definition CreateResourceGroup ::
  "constants \<Rightarrow> ('m, 'r) ResourceGroupRestHandlerImpl \<Rightarrow> 'm http_Request \<Rightarrow> ('m, 'r) event list" where
  "CreateResourceGroup K handler r =
     (let token = Header_token r;
          (userId, err) = userService_GetLoggedInUser handler r in
      if userId = 0 \<or> err \<noteq> None
      then [WriteJsonResp err (payload_string ''Unauthorized User'') StatusUnauthorized]
      else (case Body_Decode r of
        (request, Some err) \<Rightarrow> [WriteJsonResp (Some err) payload_nil StatusBadRequest]
      | (request, None) \<Rightarrow>
         (let request = request\<lparr>UserId := userId\<rparr> in
          call_validator_Struct request #
          (case validator_Struct handler request of
             Some err \<Rightarrow> [WriteJsonResp (Some err) payload_nil StatusBadRequest]
           | None \<Rightarrow>
              (let vars = mux_Vars r in
               case Atoi (vars_get vars ''resourceId'') of
                 Inl err \<Rightarrow> [WriteJsonResp (Some err) payload_nil StatusBadRequest]
               | Inr resourceId \<Rightarrow>
                  (case getGroupTypeAndAuthFunc K handler (GroupType request) of
                     (groupType, authFunc, Some err) \<Rightarrow>
                       [WriteJsonResp (Some err) payload_nil StatusBadRequest]
                   | (groupType, authFunc, None) \<Rightarrow>
                      (let request = request\<lparr>ParentResourceId := resourceId\<rparr>;
                           request = request\<lparr>GroupType := groupType\<rparr>;
                           request =
                             (if groupType = APP_GROUP K
                              then (let request =
                                          (if EnvironmentId request > 0
                                           then request\<lparr>ParentResourceId := EnvironmentId request\<rparr>
                                           else request)
                                    in if length (AppIds request) > 0
                                       then request\<lparr>ResourceIds := AppIds request\<rparr>
                                       else request)
                              else request)
                       in call_validator_Struct request #
                          (case validator_Struct handler request of
                             Some err \<Rightarrow> [WriteJsonResp (Some err) payload_nil StatusBadRequest]
                           | None \<Rightarrow>
                              (let request = request\<lparr>CheckAuthBatch := authFunc\<rparr> in
                               call_CreateResourceGroup request token #
                               (case service_CreateResourceGroup handler request token of
                                  (resp, Some err) \<Rightarrow>
                                    [WriteJsonResp (Some err) payload_nil StatusInternalServerError]
                                | (resp, None) \<Rightarrow>
                                    [WriteJsonResp None (payload_result resp) StatusOK]))))))))))"

definition UpdateResourceGroup ::
  "constants \<Rightarrow> ('m, 'r) ResourceGroupRestHandlerImpl \<Rightarrow> 'm http_Request \<Rightarrow> ('m, 'r) event list" where
  "UpdateResourceGroup K handler r =
     (let token = Header_token r;
          (userId, err) = userService_GetLoggedInUser handler r in
      if userId = 0 \<or> err \<noteq> None
      then [WriteJsonResp err (payload_string ''Unauthorized User'') StatusUnauthorized]
      else (case Body_Decode r of
        (request, Some err) \<Rightarrow> [WriteJsonResp (Some err) payload_nil StatusBadRequest]
      | (request, None) \<Rightarrow>
         (let request = request\<lparr>UserId := userId\<rparr> in
          case getGroupTypeAndAuthFunc K handler (GroupType request) of
            (groupType, authFunc, Some err) \<Rightarrow>
              [WriteJsonResp (Some err) payload_nil StatusBadRequest]
          | (groupType, authFunc, None) \<Rightarrow>
             (let request = request\<lparr>GroupType := groupType\<rparr>;
                  request =
                    (if groupType = APP_GROUP K
                     then (let request =
                                 (if EnvironmentId request > 0
                                  then request\<lparr>ParentResourceId := EnvironmentId request\<rparr>
                                  else request)
                           in if length (AppIds request) > 0
                              then request\<lparr>ResourceIds := AppIds request\<rparr>
                              else request)
                     else request)
              in call_validator_Struct request #
                 (case validator_Struct handler request of
                    Some err \<Rightarrow> [WriteJsonResp (Some err) payload_nil StatusBadRequest]
                  | None \<Rightarrow>
                     (let request = request\<lparr>CheckAuthBatch := authFunc\<rparr> in
                      call_UpdateResourceGroup request token #
                      (case service_UpdateResourceGroup handler request token of
                         (resp, Some err) \<Rightarrow>
                           [WriteJsonResp (Some err) (payload_result resp) StatusInternalServerError]
                       | (resp, None) \<Rightarrow>
                           [WriteJsonResp None (payload_result resp) StatusOK])))))))"

text \<open>
  \<open>DeleteResourceGroup\<close> binds the resolver's three results and then overwrites \<open>err\<close> with
  the service's error without having read it.
\<close>

definition DeleteResourceGroup ::
  "constants \<Rightarrow> ('m, 'r) ResourceGroupRestHandlerImpl \<Rightarrow> 'm http_Request \<Rightarrow> ('m, 'r) event list" where
  "DeleteResourceGroup K handler r =
     (let token = Header_token r; vars = mux_Vars r in
      case Atoi (vars_get vars ''resourceGroupId'') of
        Inl err \<Rightarrow> [WriteJsonResp (Some err) (payload_string []) StatusBadRequest]
      | Inr resourceGroupId \<Rightarrow>
         (case getGroupTypeAndAuthFunc K handler (vars_get vars ''groupType'') of
            (groupType, authFunc, err) \<Rightarrow>
              call_DeleteResourceGroup resourceGroupId groupType token authFunc #
              (case service_DeleteResourceGroup handler resourceGroupId groupType token authFunc of
                 (resp, Some err) \<Rightarrow> [WriteJsonResp (Some err) payload_nil StatusInternalServerError]
               | (resp, None) \<Rightarrow> [WriteJsonResp None (payload_result resp) StatusOK])))"

definition CheckResourceGroupPermissions ::
  "constants \<Rightarrow> ('m, 'r) ResourceGroupRestHandlerImpl \<Rightarrow> 'm http_Request \<Rightarrow> ('m, 'r) event list" where
  "CheckResourceGroupPermissions K handler r =
     (let token = Header_token r;
          (userId, err) = userService_GetLoggedInUser handler r in
      if userId = 0 \<or> err \<noteq> None
      then [WriteJsonResp err (payload_string ''Unauthorized User'') StatusUnauthorized]
      else (case Body_Decode r of
        (request, Some err) \<Rightarrow> [WriteJsonResp (Some err) payload_nil StatusBadRequest]
      | (request, None) \<Rightarrow>
         (let request = request\<lparr>UserId := userId\<rparr>; vars = mux_Vars r in
          case Atoi (vars_get vars ''resourceId'') of
            Inl err \<Rightarrow> [WriteJsonResp (Some err) payload_nil StatusBadRequest]
          | Inr resourceId \<Rightarrow>
             (case getGroupTypeAndAuthFunc K handler (GroupType request) of
                (groupType, authFunc, Some err) \<Rightarrow>
                  [WriteJsonResp (Some err) payload_nil StatusBadRequest]
              | (groupType, authFunc, None) \<Rightarrow>
                 (let request = request\<lparr>GroupType := groupType\<rparr>;
                      request = request\<lparr>ParentResourceId := resourceId\<rparr>;
                      request =
                        (if groupType = APP_GROUP K
                         then (let request =
                                     (if EnvironmentId request > 0
                                      then request\<lparr>ParentResourceId := EnvironmentId request\<rparr>
                                      else request)
                               in if length (AppIds request) > 0
                                  then request\<lparr>ResourceIds := AppIds request\<rparr>
                                  else request)
                         else request);
                      request = request\<lparr>CheckAuthBatch := authFunc\<rparr>
                  in call_CheckResourceGroupPermissions request token #
                     (case service_CheckResourceGroupPermissions handler request token of
                        (resp, Some err) \<Rightarrow>
                          [WriteJsonResp (Some err) payload_nil StatusInternalServerError]
                      | (resp, None) \<Rightarrow>
                          [WriteJsonResp None (payload_result resp) StatusOK]))))))"

text \<open>The service calls among the events of a handler run.\<close>

fun is_service_call :: "('m, 'r) event \<Rightarrow> bool" where
  "is_service_call (call_validator_Struct _) = False"
| "is_service_call (WriteJsonResp _ _ _) = False"
| "is_service_call _ = True"

definition service_calls :: "('m, 'r) event list \<Rightarrow> ('m, 'r) event list" where
  "service_calls evs = filter is_service_call evs"

section \<open>Type utilities (pkg/variables/utils/type-utils.go)\<close>

subsection \<open>Values of type \<open>interface{}\<close> and their reflected kind\<close>

text \<open>The constants of \<open>reflect.Kind\<close>.\<close>

datatype Kind =
    reflect_Invalid | reflect_Bool
  | reflect_Int | reflect_Int8 | reflect_Int16 | reflect_Int32 | reflect_Int64
  | reflect_Uint | reflect_Uint8 | reflect_Uint16 | reflect_Uint32 | reflect_Uint64
  | reflect_Uintptr | reflect_Float32 | reflect_Float64
  | reflect_Complex64 | reflect_Complex128
  | reflect_Array | reflect_Chan | reflect_Func | reflect_Interface | reflect_Map
  | reflect_Pointer | reflect_Slice | reflect_String | reflect_Struct | reflect_UnsafePointer

text \<open>
  An \<open>interface{}\<close> value: the nil interface, or a value with its dynamic type. The dynamic
  types the two files tell apart have a constructor each (\<open>json.Number\<close> is a named string
  type); \<open>V_other k\<close> is a value of any other dynamic type, of kind \<open>k\<close>. A \<open>float64\<close> is a
  value of the type parameter \<open>'f\<close>.
\<close>

datatype 'f iface =
    V_nil
  | V_Number string
  | V_string string
  | V_bool bool
  | V_int int
  | V_float64 'f
  | V_other Kind

fun kind_of :: "'f iface \<Rightarrow> Kind" where
  "kind_of V_nil = reflect_Invalid"
| "kind_of (V_Number n) = reflect_String"
| "kind_of (V_string s) = reflect_String"
| "kind_of (V_bool b) = reflect_Bool"
| "kind_of (V_int i) = reflect_Int"
| "kind_of (V_float64 f) = reflect_Float64"
| "kind_of (V_other k) = k"

text \<open>
  \<open>reflect.ValueOf(nil)\<close> is the zero \<open>Value\<close>, whose \<open>Kind()\<close> is \<open>Invalid\<close>.
  \<open>reflect.TypeOf(nil)\<close> is the nil \<open>Type\<close>, and a method call on it is a nil dereference: a
  run-time panic. A \<open>Value\<close> and a \<open>Type\<close> are represented by what the code reads of them,
  the kind.
\<close>

datatype Value = zero_Value | Value Kind
datatype Type = Type Kind
datatype panic = nil_pointer_dereference

definition ValueOf :: "'f iface \<Rightarrow> Value" where
  "ValueOf i = (case i of V_nil \<Rightarrow> zero_Value | _ \<Rightarrow> Value (kind_of i))"

definition Value_Kind :: "Value \<Rightarrow> Kind" where
  "Value_Kind v = (case v of zero_Value \<Rightarrow> reflect_Invalid | Value k \<Rightarrow> k)"

definition TypeOf :: "'f iface \<Rightarrow> Type option" where
  "TypeOf i = (case i of V_nil \<Rightarrow> None | _ \<Rightarrow> Some (Type (kind_of i)))"

definition Type_Kind :: "Type option \<Rightarrow> panic + Kind" where
  "Type_Kind t = (case t of None \<Rightarrow> Inl nil_pointer_dereference | Some (Type k) \<Rightarrow> Inr k)"

definition IsPrimitiveType :: "'f iface \<Rightarrow> bool" where
  "IsPrimitiveType value =
     (let val = ValueOf value;
          kind = Value_Kind val
      in kind = reflect_Int \<or> kind = reflect_Int8 \<or> kind = reflect_Int16 \<or>
         kind = reflect_Int32 \<or> kind = reflect_Int64 \<or> kind = reflect_Uint \<or>
         kind = reflect_Uint8 \<or> kind = reflect_Uint16 \<or> kind = reflect_Uint32 \<or>
         kind = reflect_Uint64 \<or> kind = reflect_Float32 \<or> kind = reflect_Float64 \<or>
         kind = reflect_Bool)"

definition IsStringType :: "'f iface \<Rightarrow> panic + bool" where
  "IsStringType val =
     (case Type_Kind (TypeOf val) of
        Inl p \<Rightarrow> Inl p
      | Inr kind \<Rightarrow> Inr (kind = reflect_String))"

subsection \<open>The strconv and strings functions the file calls\<close>

text \<open>The double quote, written \<open>"\""\<close> in the source.\<close>

definition dquote :: char where
  "dquote = CHR 0x22"

text \<open>\<open>strconv.ParseBool\<close> accepts exactly twelve spellings.\<close>

definition ParseBool :: "string \<Rightarrow> error + bool" where
  "ParseBool str =
     (if str \<in> set [''1'', ''t'', ''T'', ''TRUE'', ''true'', ''True''] then Inr True
      else if str \<in> set [''0'', ''f'', ''F'', ''FALSE'', ''false'', ''False''] then Inr False
      else Inl (ErrSyntax ''ParseBool'' str))"


text \<open>
  \<open>strconv.ParseFloat(s, 64)\<close>. Whatever it accepts starts with a sign, a digit, a decimal
  point, or the first letter of \<open>inf\<close>, \<open>infinity\<close> or \<open>nan\<close> in either case; every other
  input is a syntax error. Which of the remaining inputs convert, and to which \<open>float64\<close>
  (IEEE 754 rounding, the range error on overflow), is the parameter \<open>atof64\<close>.
\<close>

definition ParseFloat :: "(string \<Rightarrow> error + 'f) \<Rightarrow> string \<Rightarrow> error + 'f" where
  "ParseFloat atof64 s =
     (if s \<noteq> [] \<and> hd s \<in> set ''+-.0123456789iInN'' then atof64 s
      else Inl (ErrSyntax ''ParseFloat'' s))"

text \<open>
  \<open>strings.Trim(s, cutset)\<close> drops every leading and every trailing character that is in the
  cutset (for an ASCII cutset, bytes and code points agree).
\<close>

definition Trim :: "string \<Rightarrow> string \<Rightarrow> string" where
  "Trim s cutset =
     rev (dropWhile (\<lambda>c. c \<in> set cutset) (rev (dropWhile (\<lambda>c. c \<in> set cutset) s)))"

subsection \<open>encoding/json: number literals and \<open>Marshal\<close> of a \<open>json.Number\<close>\<close>

text \<open>
  \<open>isValidNumber\<close> of encoding/json, the JSON number grammar: an optional minus, \<open>0\<close> or a
  digit \<open>1..9\<close> with further digits, an optional fraction, an optional exponent.
\<close>

definition isDigit19 :: "char \<Rightarrow> bool" where
  "isDigit19 c = (49 \<le> (of_char c :: nat) \<and> (of_char c :: nat) \<le> 57)"





subsection \<open>StringifyValue and DestringifyValue\<close>


definition DestringifyValue :: "(string \<Rightarrow> error + 'f) \<Rightarrow> string \<Rightarrow> 'f iface \<times> error option" where
  "DestringifyValue atof64 Data =
     (case Atoi Data of
        Inr intValue \<Rightarrow> (V_int intValue, None)
      | Inl _ \<Rightarrow>
         (case ParseFloat atof64 Data of
            Inr floatValue \<Rightarrow> (V_float64 floatValue, None)
          | Inl _ \<Rightarrow>
             (case ParseBool Data of
                Inr boolValue \<Rightarrow> (V_bool boolValue, None)
              | Inl _ \<Rightarrow> (V_string (Trim Data [dquote]), None))))"

subsection \<open>encoding/json: the scanner\<close>

text \<open>
  The state machine of encoding/json's \<open>scanner.go\<close>, which \<open>json.Unmarshal\<close> runs over the
  whole input before it decodes anything. A scanner holds the step function to apply to the
  next byte, whether the top-level value has ended, the stack of enclosing objects and arrays
  (the innermost first here; Go appends it last) and whether an error has been recorded.
\<close>

datatype step =
    at_BeginValueOrEmpty | at_BeginValue | at_BeginStringOrEmpty | at_BeginString
  | at_EndValue | at_EndTop
  | at_InString | at_InStringEsc | at_InStringEscU | at_InStringEscU1 | at_InStringEscU12
  | at_InStringEscU123
  | at_Neg | at_1 | at_0 | at_Dot | at_Dot0 | at_E | at_ESign | at_E0
  | at_T | at_Tr | at_Tru | at_F | at_Fa | at_Fal | at_Fals | at_N | at_Nu | at_Nul
  | at_Error

datatype parse_state = parseObjectKey | parseObjectValue | parseArrayValue

datatype scan_code =
    scanContinue | scanBeginLiteral | scanBeginObject | scanObjectKey | scanObjectValue
  | scanEndObject | scanBeginArray | scanArrayValue | scanEndArray | scanSkipSpace
  | scanEnd | scanError

record scanner =
  scan_step :: step
  endTop :: bool
  parseState :: "parse_state list"
  scan_err :: bool

definition maxNestingDepth :: nat where
  "maxNestingDepth = 10000"

definition backslash :: char where
  "backslash = CHR 0x5C"

definition isSpace :: "char \<Rightarrow> bool" where
  "isSpace c = (c = CHR '' '' \<or> c = CHR 0x09 \<or> c = CHR 0x0D \<or> c = CHR 0x0A)"

definition isHex :: "char \<Rightarrow> bool" where
  "isHex c = (isDigit c \<or> c \<in> set ''abcdef'' \<or> c \<in> set ''ABCDEF'')"

definition scanner_error :: "scanner \<Rightarrow> scanner \<times> scan_code" where
  "scanner_error s = (s\<lparr>scan_step := at_Error, scan_err := True\<rparr>, scanError)"

definition goto :: "scanner \<Rightarrow> step \<Rightarrow> scan_code \<Rightarrow> scanner \<times> scan_code" where
  "goto s st code = (s\<lparr>scan_step := st\<rparr>, code)"

definition pushParseState :: "scanner \<Rightarrow> parse_state \<Rightarrow> scan_code \<Rightarrow> scanner \<times> scan_code" where
  "pushParseState s newParseState successState =
     (let s = s\<lparr>parseState := newParseState # parseState s\<rparr>
      in if length (parseState s) \<le> maxNestingDepth then (s, successState)
         else scanner_error s)"

definition popParseState :: "scanner \<Rightarrow> scanner" where
  "popParseState s =
     (let s = s\<lparr>parseState := tl (parseState s)\<rparr>
      in if parseState s = [] then s\<lparr>scan_step := at_EndTop, endTop := True\<rparr>
         else s\<lparr>scan_step := at_EndValue\<rparr>)"

definition stateEndTop :: "scanner \<Rightarrow> char \<Rightarrow> scanner \<times> scan_code" where
  "stateEndTop s c = (if \<not> isSpace c then (fst (scanner_error s), scanEnd) else (s, scanEnd))"

definition stateEndValue :: "scanner \<Rightarrow> char \<Rightarrow> scanner \<times> scan_code" where
  "stateEndValue s c =
     (case parseState s of
        [] \<Rightarrow> stateEndTop (s\<lparr>scan_step := at_EndTop, endTop := True\<rparr>) c
      | ps # enclosing \<Rightarrow>
          if isSpace c then goto s at_EndValue scanSkipSpace
          else (case ps of
              parseObjectKey \<Rightarrow>
                if c = CHR '':''
                then goto (s\<lparr>parseState := parseObjectValue # enclosing\<rparr>) at_BeginValue scanObjectKey
                else scanner_error s
            | parseObjectValue \<Rightarrow>
                if c = CHR '',''
                then goto (s\<lparr>parseState := parseObjectKey # enclosing\<rparr>) at_BeginString scanObjectValue
                else if c = CHR ''}'' then (popParseState s, scanEndObject)
                else scanner_error s
            | parseArrayValue \<Rightarrow>
                if c = CHR '','' then goto s at_BeginValue scanArrayValue
                else if c = CHR '']'' then (popParseState s, scanEndArray)
                else scanner_error s))"

definition stateBeginValue :: "scanner \<Rightarrow> char \<Rightarrow> scanner \<times> scan_code" where
  "stateBeginValue s c =
     (if isSpace c then (s, scanSkipSpace)
      else if c = CHR ''{''
      then pushParseState (s\<lparr>scan_step := at_BeginStringOrEmpty\<rparr>) parseObjectKey scanBeginObject
      else if c = CHR ''[''
      then pushParseState (s\<lparr>scan_step := at_BeginValueOrEmpty\<rparr>) parseArrayValue scanBeginArray
      else if c = dquote then goto s at_InString scanBeginLiteral
      else if c = CHR ''-'' then goto s at_Neg scanBeginLiteral
      else if c = CHR ''0'' then goto s at_0 scanBeginLiteral
      else if c = CHR ''t'' then goto s at_T scanBeginLiteral
      else if c = CHR ''f'' then goto s at_F scanBeginLiteral
      else if c = CHR ''n'' then goto s at_N scanBeginLiteral
      else if isDigit19 c then goto s at_1 scanBeginLiteral
      else scanner_error s)"

definition stateBeginValueOrEmpty :: "scanner \<Rightarrow> char \<Rightarrow> scanner \<times> scan_code" where
  "stateBeginValueOrEmpty s c =
     (if isSpace c then (s, scanSkipSpace)
      else if c = CHR '']'' then stateEndValue s c
      else stateBeginValue s c)"

definition stateBeginString :: "scanner \<Rightarrow> char \<Rightarrow> scanner \<times> scan_code" where
  "stateBeginString s c =
     (if isSpace c then (s, scanSkipSpace)
      else if c = dquote then goto s at_InString scanBeginLiteral
      else scanner_error s)"

definition stateBeginStringOrEmpty :: "scanner \<Rightarrow> char \<Rightarrow> scanner \<times> scan_code" where
  "stateBeginStringOrEmpty s c =
     (if isSpace c then (s, scanSkipSpace)
      else if c = CHR ''}''
      then stateEndValue (s\<lparr>parseState := parseObjectValue # tl (parseState s)\<rparr>) c
      else stateBeginString s c)"

definition stateInString :: "scanner \<Rightarrow> char \<Rightarrow> scanner \<times> scan_code" where
  "stateInString s c =
     (if c = dquote then goto s at_EndValue scanContinue
      else if c = backslash then goto s at_InStringEsc scanContinue
      else if (of_char c :: nat) < 32 then scanner_error s
      else (s, scanContinue))"

definition stateInStringEsc :: "scanner \<Rightarrow> char \<Rightarrow> scanner \<times> scan_code" where
  "stateInStringEsc s c =
     (if c \<in> set ''bfnrt'' \<or> c = backslash \<or> c = CHR ''/'' \<or> c = dquote
      then goto s at_InString scanContinue
      else if c = CHR ''u'' then goto s at_InStringEscU scanContinue
      else scanner_error s)"

definition stateInStringEscU :: "step \<Rightarrow> scanner \<Rightarrow> char \<Rightarrow> scanner \<times> scan_code" where
  "stateInStringEscU next s c = (if isHex c then goto s next scanContinue else scanner_error s)"

definition state0 :: "scanner \<Rightarrow> char \<Rightarrow> scanner \<times> scan_code" where
  "state0 s c =
     (if c = CHR ''.'' then goto s at_Dot scanContinue
      else if c = CHR ''e'' \<or> c = CHR ''E'' then goto s at_E scanContinue
      else stateEndValue s c)"

definition state1 :: "scanner \<Rightarrow> char \<Rightarrow> scanner \<times> scan_code" where
  "state1 s c = (if isDigit c then goto s at_1 scanContinue else state0 s c)"

definition stateNeg :: "scanner \<Rightarrow> char \<Rightarrow> scanner \<times> scan_code" where
  "stateNeg s c =
     (if c = CHR ''0'' then goto s at_0 scanContinue
      else if isDigit19 c then goto s at_1 scanContinue
      else scanner_error s)"

definition stateDot :: "scanner \<Rightarrow> char \<Rightarrow> scanner \<times> scan_code" where
  "stateDot s c = (if isDigit c then goto s at_Dot0 scanContinue else scanner_error s)"

definition stateDot0 :: "scanner \<Rightarrow> char \<Rightarrow> scanner \<times> scan_code" where
  "stateDot0 s c =
     (if isDigit c then (s, scanContinue)
      else if c = CHR ''e'' \<or> c = CHR ''E'' then goto s at_E scanContinue
      else stateEndValue s c)"

definition stateESign :: "scanner \<Rightarrow> char \<Rightarrow> scanner \<times> scan_code" where
  "stateESign s c = (if isDigit c then goto s at_E0 scanContinue else scanner_error s)"

definition stateE :: "scanner \<Rightarrow> char \<Rightarrow> scanner \<times> scan_code" where
  "stateE s c =
     (if c = CHR ''+'' \<or> c = CHR ''-'' then goto s at_ESign scanContinue else stateESign s c)"

definition stateE0 :: "scanner \<Rightarrow> char \<Rightarrow> scanner \<times> scan_code" where
  "stateE0 s c = (if isDigit c then (s, scanContinue) else stateEndValue s c)"

text \<open>
  The states inside \<open>true\<close>, \<open>false\<close> and \<open>null\<close> each expect one letter and name the state
  that follows it.
\<close>

definition stateLetter :: "char \<Rightarrow> step \<Rightarrow> scanner \<Rightarrow> char \<Rightarrow> scanner \<times> scan_code" where
  "stateLetter expected next s c = (if c = expected then goto s next scanContinue else scanner_error s)"

definition scanner_step :: "scanner \<Rightarrow> char \<Rightarrow> scanner \<times> scan_code" where
  "scanner_step s c =
     (case scan_step s of
        at_BeginValueOrEmpty \<Rightarrow> stateBeginValueOrEmpty s c
      | at_BeginValue \<Rightarrow> stateBeginValue s c
      | at_BeginStringOrEmpty \<Rightarrow> stateBeginStringOrEmpty s c
      | at_BeginString \<Rightarrow> stateBeginString s c
      | at_EndValue \<Rightarrow> stateEndValue s c
      | at_EndTop \<Rightarrow> stateEndTop s c
      | at_InString \<Rightarrow> stateInString s c
      | at_InStringEsc \<Rightarrow> stateInStringEsc s c
      | at_InStringEscU \<Rightarrow> stateInStringEscU at_InStringEscU1 s c
      | at_InStringEscU1 \<Rightarrow> stateInStringEscU at_InStringEscU12 s c
      | at_InStringEscU12 \<Rightarrow> stateInStringEscU at_InStringEscU123 s c
      | at_InStringEscU123 \<Rightarrow> stateInStringEscU at_InString s c
      | at_Neg \<Rightarrow> stateNeg s c
      | at_1 \<Rightarrow> state1 s c
      | at_0 \<Rightarrow> state0 s c
      | at_Dot \<Rightarrow> stateDot s c
      | at_Dot0 \<Rightarrow> stateDot0 s c
      | at_E \<Rightarrow> stateE s c
      | at_ESign \<Rightarrow> stateESign s c
      | at_E0 \<Rightarrow> stateE0 s c
      | at_T \<Rightarrow> stateLetter (CHR ''r'') at_Tr s c
      | at_Tr \<Rightarrow> stateLetter (CHR ''u'') at_Tru s c
      | at_Tru \<Rightarrow> stateLetter (CHR ''e'') at_EndValue s c
      | at_F \<Rightarrow> stateLetter (CHR ''a'') at_Fa s c
      | at_Fa \<Rightarrow> stateLetter (CHR ''l'') at_Fal s c
      | at_Fal \<Rightarrow> stateLetter (CHR ''s'') at_Fals s c
      | at_Fals \<Rightarrow> stateLetter (CHR ''e'') at_EndValue s c
      | at_N \<Rightarrow> stateLetter (CHR ''u'') at_Nu s c
      | at_Nu \<Rightarrow> stateLetter (CHR ''l'') at_Nul s c
      | at_Nul \<Rightarrow> stateLetter (CHR ''l'') at_EndValue s c
      | at_Error \<Rightarrow> (s, scanError))"

definition scanner_reset :: scanner where
  "scanner_reset = \<lparr>scan_step = at_BeginValue, endTop = False, parseState = [], scan_err = False\<rparr>"

text \<open>\<open>eof\<close>: the end of the input is fine once the top-level value has ended, if need be
  after one more space.\<close>

definition scanner_eof :: "scanner \<Rightarrow> scan_code" where
  "scanner_eof s =
     (if scan_err s then scanError
      else if endTop s then scanEnd
      else if endTop (fst (scanner_step s (CHR '' ''))) then scanEnd
      else scanError)"

text \<open>\<open>checkValid\<close> stops at the first byte whose step reports an error.\<close>

fun checkValid_loop :: "scanner \<Rightarrow> string \<Rightarrow> scanner option" where
  "checkValid_loop s [] = Some s"
| "checkValid_loop s (c # data) =
     (case scanner_step s c of
        (s', code) \<Rightarrow> if code = scanError then None else checkValid_loop s' data)"

definition checkValid :: "string \<Rightarrow> bool" where
  "checkValid data =
     (case checkValid_loop scanner_reset data of
        None \<Rightarrow> False
      | Some s \<Rightarrow> scanner_eof s \<noteq> scanError)"

subsection \<open>encoding/json: \<open>Unmarshal\<close> into a \<open>map[string]interface{}\<close>\<close>

text \<open>
  The decoder walks the input with the same scanner. The code each byte gets tells where a
  literal begins (\<open>scanBeginLiteral\<close>) and how far it reaches (the bytes that follow with
  \<open>scanContinue\<close>).
\<close>

fun scan_codes :: "scanner \<Rightarrow> string \<Rightarrow> scan_code list" where
  "scan_codes s [] = []"
| "scan_codes s (c # data) = (case scanner_step s c of (s', code) \<Rightarrow> code # scan_codes s' data)"

fun literals :: "string option \<Rightarrow> (char \<times> scan_code) list \<Rightarrow> string list" where
  "literals cur [] = (case cur of None \<Rightarrow> [] | Some l \<Rightarrow> [l])"
| "literals cur ((c, code) # ops) =
     (if code = scanContinue then literals (map_option (\<lambda>l. l @ [c]) cur) ops
      else (case cur of None \<Rightarrow> [] | Some l \<Rightarrow> [l]) @
           (if code = scanBeginLiteral then literals (Some [c]) ops else literals None ops))"

definition number_literals :: "(char \<times> scan_code) list \<Rightarrow> string list" where
  "number_literals ops = filter (\<lambda>l. hd l = CHR ''-'' \<or> isDigit (hd l)) (literals None ops)"

text \<open>
  A number that lands in an \<open>interface{}\<close> is converted with \<open>strconv.ParseFloat\<close>; a failed
  conversion is an \<open>UnmarshalTypeError\<close>.
\<close>

definition convertNumber :: "(string \<Rightarrow> error + 'f) \<Rightarrow> string \<Rightarrow> error + 'f" where
  "convertNumber atof64 s =
     (case ParseFloat atof64 s of
        Inl _ \<Rightarrow> Inl (UnmarshalTypeError (''number '' @ s))
      | Inr f \<Rightarrow> Inr f)"

text \<open>
  \<open>json.Unmarshal(data, &m)\<close> for \<open>m\<close> of type \<open>map[string]interface{}\<close>, as far as its
  error goes. Invalid JSON is a syntax error. Otherwise the top-level value decides: an object
  fills the map, and fails only on a number that does not convert (the first such error is
  the one returned); \<open>null\<close> leaves the map alone, without an error; an array, a string, a
  number, \<open>true\<close> and \<open>false\<close> do not fit a map.
\<close>

definition Unmarshal_map :: "(string \<Rightarrow> error + 'f) \<Rightarrow> string \<Rightarrow> error option" where
  "Unmarshal_map atof64 data =
     (if \<not> checkValid data then Some SyntaxError
      else let ops = zip data (scan_codes scanner_reset data) in
           case dropWhile (\<lambda>op. snd op = scanSkipSpace) ops of
             [] \<Rightarrow> Some SyntaxError
           | (c, code) # _ \<Rightarrow>
               if code = scanBeginArray then Some (UnmarshalTypeError ''array'')
               else if code = scanBeginObject
               then (case List.map_filter
                            (\<lambda>n. case convertNumber atof64 n of Inl e \<Rightarrow> Some e | Inr _ \<Rightarrow> None)
                            (number_literals ops) of
                       [] \<Rightarrow> None
                     | e # _ \<Rightarrow> Some e)
               else if c = CHR ''n'' then None
               else if c = CHR ''t'' \<or> c = CHR ''f'' then Some (UnmarshalTypeError ''bool'')
               else if c = dquote then Some (UnmarshalTypeError ''string'')
               else Some (UnmarshalTypeError ''number''))"

subsection \<open>IsValidJSON and IsValidYAML\<close>

definition IsValidJSON :: "(string \<Rightarrow> error + 'f) \<Rightarrow> string \<Rightarrow> bool" where
  "IsValidJSON atof64 input =
     (case Unmarshal_map atof64 input of
        Some err \<Rightarrow> False
      | None \<Rightarrow> True)"

text \<open>
  \<open>yaml.YAMLToJSONStrict\<close> of github.com/ghodss/yaml is a parameter: the JSON text it
  converts the input to, or its error.
\<close>

definition IsValidYAML ::
  "(string \<Rightarrow> error + string) \<Rightarrow> (string \<Rightarrow> error + 'f) \<Rightarrow> string \<Rightarrow> bool" where
  "IsValidYAML YAMLToJSONStrict atof64 input =
     (case YAMLToJSONStrict input of
        Inl err \<Rightarrow> False
      | Inr jsonInput \<Rightarrow> IsValidJSON atof64 jsonInput)"

section \<open>Notions used to state the properties\<close>

text \<open>
  The legacy-compatibility projection in the specification's words: for an application
  group, \<open>environmentId\<close> overrides \<open>parentResourceId\<close> when it is positive and \<open>appIds\<close>
  overrides \<open>resourceIds\<close> when it is non-empty; any other kind leaves the request alone.
  The handlers are compared with it below.
\<close>

definition spec_normalize ::
  "constants \<Rightarrow> ResourceGroupType \<Rightarrow> 'm ResourceGroupDto_scheme \<Rightarrow> 'm ResourceGroupDto_scheme" where
  "spec_normalize K kind request =
     (let overridden =
            (if kind = APP_GROUP K \<and> EnvironmentId request > 0
             then request\<lparr>ParentResourceId := EnvironmentId request\<rparr>
             else request)
      in if kind = APP_GROUP K \<and> AppIds request \<noteq> []
         then overridden\<lparr>ResourceIds := AppIds request\<rparr>
         else overridden)"

text \<open>
  Stripping one layer of surrounding double quotes, in the specification's words: a text that
  both starts and ends with a double quote loses that pair, any other text is unchanged.
\<close>

definition spec_strip_one_layer :: "string \<Rightarrow> string" where
  "spec_strip_one_layer s =
     (if length s \<ge> 2 \<and> hd s = dquote \<and> last s = dquote then butlast (tl s) else s)"

text \<open>The kind and the strategy a service call carries.\<close>

fun delegated :: "('m, 'r) event \<Rightarrow> (ResourceGroupType \<times> AuthFunc option) option" where
  "delegated (call_GetActiveResourceGroupList token authFunc resourceId groupType) =
     Some (groupType, authFunc)"
| "delegated (call_CreateResourceGroup request token) =
     Some (GroupType request, CheckAuthBatch request)"
| "delegated (call_UpdateResourceGroup request token) =
     Some (GroupType request, CheckAuthBatch request)"
| "delegated (call_DeleteResourceGroup resourceGroupId groupType token authFunc) =
     Some (groupType, authFunc)"
| "delegated (call_CheckResourceGroupPermissions request token) =
     Some (GroupType request, CheckAuthBatch request)"
| "delegated (call_validator_Struct request) = None"
| "delegated (WriteJsonResp err p status) = None"

text \<open>The kind and the strategy the resolver returns for a token.\<close>

definition resolved ::
  "constants \<Rightarrow> ('m, 'r) ResourceGroupRestHandlerImpl \<Rightarrow> string
     \<Rightarrow> (ResourceGroupType \<times> AuthFunc option) option" where
  "resolved K handler groupType =
     (case getGroupTypeAndAuthFunc K handler groupType of
        (kind, authFunc, err) \<Rightarrow> Some (kind, authFunc))"

text \<open>The validator calls among the events of a handler run.\<close>

fun is_validator_call :: "('m, 'r) event \<Rightarrow> bool" where
  "is_validator_call (call_validator_Struct _) = True"
| "is_validator_call _ = False"

definition validator_calls :: "('m, 'r) event list \<Rightarrow> ('m, 'r) event list" where
  "validator_calls evs = filter is_validator_call evs"

text \<open>The first byte of a text that is not JSON white space, if there is one.\<close>

definition first_byte :: "string \<Rightarrow> char option" where
  "first_byte input = (case dropWhile isSpace input of [] \<Rightarrow> None | c # _ \<Rightarrow> Some c)"

subsection \<open>A concrete deployment, for instances of the theorems\<close>

text \<open>
  The constants with the values of the upstream packages, a handler whose user service knows
  one token, whose validator accepts every request and whose service always succeeds, and a
  request in the legacy shape: no group type, an environment id and application ids.
\<close>

definition example_constants :: constants where
  "example_constants =
     \<lparr>APP_GROUP = ''app-group'', ENV_GROUP = ''env-group'',
      ResourceApplications = ''applications'', ResourceEnvironment = ''environment''\<rparr>"

definition example_handler :: "(unit, string) ResourceGroupRestHandlerImpl" where
  "example_handler =
     \<lparr>enforcer_EnforceInBatch =
        (\<lambda>token resource action objects. Some (map_of (map (\<lambda>object. (object, True)) objects))),
      userService_GetLoggedInUser =
        (\<lambda>r. if Header_token r = ''secret'' then (2, None) else (0, None)),
      validator_Struct = (\<lambda>request. None),
      service_GetActiveResourceGroupList = (\<lambda>token authFunc resourceId groupType. (''list'', None)),
      service_CreateResourceGroup = (\<lambda>request token. (''created'', None)),
      service_UpdateResourceGroup = (\<lambda>request token. (''updated'', None)),
      service_DeleteResourceGroup =
        (\<lambda>resourceGroupId groupType token authFunc. (''deleted'', None)),
      service_CheckResourceGroupPermissions = (\<lambda>request token. (''checked'', None))\<rparr>"

definition example_body :: ResourceGroupDto where
  "example_body =
     \<lparr>GroupType = [], ParentResourceId = 0, ResourceIds = [], EnvironmentId = 7,
      AppIds = [1, 2], UserId = 0, CheckAuthBatch = None\<rparr>"

definition example_request :: "unit http_Request" where
  "example_request =
     \<lparr>Header_token = ''secret'',
      mux_Vars = [''resourceId'' \<mapsto> ''5'', ''resourceGroupId'' \<mapsto> ''9'', ''groupType'' \<mapsto> ''team''],
      Body_Decode = (example_body, None)\<rparr>"

text \<open>
  A stand-in for the float conversion that knows three literals, with a \<open>float64\<close> written
  as a decimal mantissa and exponent, and a stand-in for the YAML converter that knows four
  documents: a mapping, a list, the empty document and an unterminated flow mapping.
\<close>

definition example_atof64 :: "string \<Rightarrow> error + int \<times> int" where
  "example_atof64 s =
     (if s = ''1'' then Inr (1, 0)
      else if s = ''1.5'' then Inr (15, - 1)
      else if s = ''1e400'' then Inl (ErrRange ''ParseFloat'' s)
      else Inl (ErrSyntax ''ParseFloat'' s))"

definition example_yaml :: "string \<Rightarrow> error + string" where
  "example_yaml input =
     (if input = ''a: 1'' then Inr (''{'' @ [dquote] @ ''a'' @ [dquote] @ '':1}'')
      else if input = ''- 1'' @ [CHR 0x0A] @ ''- 2'' then Inr ''[1,2]''
      else if input = [] then Inr ''null''
      else Inl (Err ''yaml: did not find expected node content''))"

section \<open>Verified properties\<close>

subsection \<open>The group-type resolver\<close>

text \<open>
  Every entry point hands the service the kind and the strategy that
  \<open>getGroupTypeAndAuthFunc\<close> returns for its token, and nothing else: the route variable
  \<open>groupType\<close> for list and delete, the decoded body's \<open>GroupType\<close> for create, update and
  the permission check.
\<close>

lemma delegated_GetActiveResourceGroupList:
  "list_all (\<lambda>e. delegated e \<in> {None, resolved K handler (vars_get (mux_Vars r) ''groupType'')})
     (GetActiveResourceGroupList K handler r)"
proof -
  obtain kind authFunc err
    where g: "getGroupTypeAndAuthFunc K handler (vars_get (mux_Vars r) ''groupType'') = (kind, authFunc, err)"
    by (cases "getGroupTypeAndAuthFunc K handler (vars_get (mux_Vars r) ''groupType'')")
  show ?thesis
    unfolding GetActiveResourceGroupList_def Let_def resolved_def using g
    by (simp split: sum.split prod.split option.split)
qed

lemma delegated_DeleteResourceGroup:
  "list_all (\<lambda>e. delegated e \<in> {None, resolved K handler (vars_get (mux_Vars r) ''groupType'')})
     (DeleteResourceGroup K handler r)"
proof -
  obtain kind authFunc err
    where g: "getGroupTypeAndAuthFunc K handler (vars_get (mux_Vars r) ''groupType'') = (kind, authFunc, err)"
    by (cases "getGroupTypeAndAuthFunc K handler (vars_get (mux_Vars r) ''groupType'')")
  show ?thesis
    unfolding DeleteResourceGroup_def Let_def resolved_def using g
    by (simp split: sum.split prod.split option.split)
qed

lemma delegated_CreateResourceGroup:
  "list_all (\<lambda>e. delegated e \<in> {None, resolved K handler (GroupType (fst (Body_Decode r)))})
     (CreateResourceGroup K handler r)"
proof -
  obtain userId uerr where u: "userService_GetLoggedInUser handler r = (userId, uerr)"
    by (cases "userService_GetLoggedInUser handler r")
  obtain d derr where d: "Body_Decode r = (d, derr)"
    by (cases "Body_Decode r")
  obtain kind authFunc err
    where g: "getGroupTypeAndAuthFunc K handler (GroupType d) = (kind, authFunc, err)"
    by (cases "getGroupTypeAndAuthFunc K handler (GroupType d)")
  show ?thesis
    unfolding CreateResourceGroup_def Let_def resolved_def u d using g
    by (cases "kind = APP_GROUP K"; cases "0 < EnvironmentId d"; cases "AppIds d")
       (simp_all split: sum.split prod.split option.split)
qed

lemma delegated_UpdateResourceGroup:
  "list_all (\<lambda>e. delegated e \<in> {None, resolved K handler (GroupType (fst (Body_Decode r)))})
     (UpdateResourceGroup K handler r)"
proof -
  obtain userId uerr where u: "userService_GetLoggedInUser handler r = (userId, uerr)"
    by (cases "userService_GetLoggedInUser handler r")
  obtain d derr where d: "Body_Decode r = (d, derr)"
    by (cases "Body_Decode r")
  obtain kind authFunc err
    where g: "getGroupTypeAndAuthFunc K handler (GroupType d) = (kind, authFunc, err)"
    by (cases "getGroupTypeAndAuthFunc K handler (GroupType d)")
  show ?thesis
    unfolding UpdateResourceGroup_def Let_def resolved_def u d using g
    by (cases "kind = APP_GROUP K"; cases "0 < EnvironmentId d"; cases "AppIds d")
       (simp_all split: sum.split prod.split option.split)
qed

lemma delegated_CheckResourceGroupPermissions:
  "list_all (\<lambda>e. delegated e \<in> {None, resolved K handler (GroupType (fst (Body_Decode r)))})
     (CheckResourceGroupPermissions K handler r)"
proof -
  obtain userId uerr where u: "userService_GetLoggedInUser handler r = (userId, uerr)"
    by (cases "userService_GetLoggedInUser handler r")
  obtain d derr where d: "Body_Decode r = (d, derr)"
    by (cases "Body_Decode r")
  obtain kind authFunc err
    where g: "getGroupTypeAndAuthFunc K handler (GroupType d) = (kind, authFunc, err)"
    by (cases "getGroupTypeAndAuthFunc K handler (GroupType d)")
  show ?thesis
    unfolding CheckResourceGroupPermissions_def Let_def resolved_def u d using g
    by (cases "kind = APP_GROUP K"; cases "0 < EnvironmentId d"; cases "AppIds d")
       (simp_all split: sum.split prod.split option.split)
qed

text \<open>
  Claim C1. The resolver returns \<open>APP_GROUP\<close> with the application-scoped strategy
  \<open>checkAppAuthBatch\<close> for the tokens \<open>""\<close> and \<open>"app-group"\<close>, \<open>ENV_GROUP\<close> with the
  environment-scoped strategy \<open>checkEnvAuthBatch\<close> for exactly \<open>"env-group"\<close>, and fails with
  the invalid-group-type error for every other token. Its result depends on the token and on
  the handler whose two methods it binds, and on nothing else: it calls no collaborator and
  writes nothing, so it has no event output. Each of the five entry points delegates with
  what it returns for that entry point's token.
\<close>

theorem resolver_maps_tokens:
  "(groupType = [] \<or> groupType = ''app-group'' \<longrightarrow>
      getGroupTypeAndAuthFunc K handler groupType =
        (APP_GROUP K, Some (checkAppAuthBatch K handler), None))
 \<and> (groupType = ''env-group'' \<longrightarrow>
      getGroupTypeAndAuthFunc K handler groupType =
        (ENV_GROUP K, Some (checkEnvAuthBatch K handler), None))
 \<and> (groupType \<noteq> [] \<and> groupType \<noteq> ''app-group'' \<and> groupType \<noteq> ''env-group'' \<longrightarrow>
      getGroupTypeAndAuthFunc K handler groupType = ([], None, Some (InvalidGroupType groupType)))
 \<and> list_all (\<lambda>e. delegated e \<in> {None, resolved K handler (vars_get (mux_Vars r) ''groupType'')})
      (GetActiveResourceGroupList K handler r)
 \<and> list_all (\<lambda>e. delegated e \<in> {None, resolved K handler (vars_get (mux_Vars r) ''groupType'')})
      (DeleteResourceGroup K handler r)
 \<and> list_all (\<lambda>e. delegated e \<in> {None, resolved K handler (GroupType (fst (Body_Decode r)))})
      (CreateResourceGroup K handler r)
 \<and> list_all (\<lambda>e. delegated e \<in> {None, resolved K handler (GroupType (fst (Body_Decode r)))})
      (UpdateResourceGroup K handler r)
 \<and> list_all (\<lambda>e. delegated e \<in> {None, resolved K handler (GroupType (fst (Body_Decode r)))})
      (CheckResourceGroupPermissions K handler r)"
  using delegated_GetActiveResourceGroupList [of K handler r]
    delegated_DeleteResourceGroup [of K handler r]
    delegated_CreateResourceGroup [of K handler r]
    delegated_UpdateResourceGroup [of K handler r]
    delegated_CheckResourceGroupPermissions [of K handler r]
  by (simp add: getGroupTypeAndAuthFunc_def)

theorem resolver_maps_tokens_witness:
  "getGroupTypeAndAuthFunc example_constants example_handler [] =
     (''app-group'', Some (checkAppAuthBatch example_constants example_handler), None)
 \<and> getGroupTypeAndAuthFunc example_constants example_handler ''app-group'' =
     (''app-group'', Some (checkAppAuthBatch example_constants example_handler), None)
 \<and> getGroupTypeAndAuthFunc example_constants example_handler ''env-group'' =
     (''env-group'', Some (checkEnvAuthBatch example_constants example_handler), None)
 \<and> getGroupTypeAndAuthFunc example_constants example_handler ''team'' =
     ([], None, Some (InvalidGroupType ''team''))
"
  using resolver_maps_tokens [of "[]" example_constants example_handler example_request]
    resolver_maps_tokens [of "''app-group''" example_constants example_handler example_request]
    resolver_maps_tokens [of "''env-group''" example_constants example_handler example_request]
    resolver_maps_tokens [of "''team''" example_constants example_handler example_request]
  by (simp add: example_constants_def)

subsection \<open>The batch-authorization strategies\<close>

text \<open>
  Claim C9. Called with an empty object list, each of the two strategies returns the nil map,
  which has no entries, and makes no call of \<open>EnforceInBatch\<close>.
\<close>

theorem empty_object_list_short_circuits:
  "checkAppAuthBatch K handler token [] action = ([], None)
 \<and> checkEnvAuthBatch K handler token [] action = ([], None)
 \<and> len_map (snd (checkAppAuthBatch K handler token [] action)) = 0
 \<and> len_map (snd (checkEnvAuthBatch K handler token [] action)) = 0"
  by (simp add: checkAppAuthBatch_def checkEnvAuthBatch_def len_map_def)

subsection \<open>Identity resolution\<close>

text \<open>
  Claim C4. When \<open>GetLoggedInUser\<close> yields user id 0 or an error, each of create, update and
  the permission check writes the 401 response and does nothing else: no validator call and
  no service call.
\<close>

theorem unauthenticated_is_401_without_service:
  assumes "fst (userService_GetLoggedInUser handler r) = 0
           \<or> snd (userService_GetLoggedInUser handler r) \<noteq> None"
  shows "CreateResourceGroup K handler r =
           [WriteJsonResp (snd (userService_GetLoggedInUser handler r))
              (payload_string ''Unauthorized User'') StatusUnauthorized]
       \<and> UpdateResourceGroup K handler r =
           [WriteJsonResp (snd (userService_GetLoggedInUser handler r))
              (payload_string ''Unauthorized User'') StatusUnauthorized]
       \<and> CheckResourceGroupPermissions K handler r =
           [WriteJsonResp (snd (userService_GetLoggedInUser handler r))
              (payload_string ''Unauthorized User'') StatusUnauthorized]
       \<and> service_calls (CreateResourceGroup K handler r) = []
       \<and> service_calls (UpdateResourceGroup K handler r) = []
       \<and> service_calls (CheckResourceGroupPermissions K handler r) = []
       \<and> StatusUnauthorized = 401"
proof -
  obtain userId err where u: "userService_GetLoggedInUser handler r = (userId, err)"
    by (cases "userService_GetLoggedInUser handler r")
  with assms have a: "userId = 0 \<or> err \<noteq> None"
    by simp
  have c: "CreateResourceGroup K handler r =
             [WriteJsonResp err (payload_string ''Unauthorized User'') StatusUnauthorized]"
    unfolding CreateResourceGroup_def Let_def u using a by simp
  have up: "UpdateResourceGroup K handler r =
             [WriteJsonResp err (payload_string ''Unauthorized User'') StatusUnauthorized]"
    unfolding UpdateResourceGroup_def Let_def u using a by simp
  have p: "CheckResourceGroupPermissions K handler r =
             [WriteJsonResp err (payload_string ''Unauthorized User'') StatusUnauthorized]"
    unfolding CheckResourceGroupPermissions_def Let_def u using a by simp
  show ?thesis
    by (simp add: c up p u service_calls_def StatusUnauthorized_def)
qed

theorem unauthenticated_is_401_without_service_witness:
  "fst (userService_GetLoggedInUser example_handler (example_request\<lparr>Header_token := ''guess''\<rparr>)) = 0
 \<and> CreateResourceGroup example_constants example_handler (example_request\<lparr>Header_token := ''guess''\<rparr>) =
       [WriteJsonResp None (payload_string ''Unauthorized User'') 401]
 \<and> CheckResourceGroupPermissions example_constants example_handler
       (example_request\<lparr>Header_token := ''guess''\<rparr>) =
       [WriteJsonResp None (payload_string ''Unauthorized User'') 401]
 \<and> service_calls (UpdateResourceGroup example_constants example_handler
       (example_request\<lparr>Header_token := ''guess''\<rparr>)) = []"
proof -
  have h: "fst (userService_GetLoggedInUser example_handler (example_request\<lparr>Header_token := ''guess''\<rparr>)) = 0"
    by (simp add: example_handler_def example_request_def)
  have s: "snd (userService_GetLoggedInUser example_handler (example_request\<lparr>Header_token := ''guess''\<rparr>)) = None"
    by (simp add: example_handler_def example_request_def)
  show ?thesis
    using unauthenticated_is_401_without_service
      [of example_handler "example_request\<lparr>Header_token := ''guess''\<rparr>" example_constants] h s
    by (simp add: service_calls_def)
qed

subsection \<open>Delete\<close>

text \<open>
  Claim C3. \<open>DeleteResourceGroup\<close> does not read the resolver's error. Once the route's
  \<open>resourceGroupId\<close> parses, a group-type token the resolver rejects still leads to the call
  of the service's \<open>DeleteResourceGroup\<close>, with the kind \<open>""\<close> and the nil strategy; the
  response is the service's outcome (500 or 200), never 400.
\<close>

theorem delete_ignores_resolver_error:
  assumes "Atoi (vars_get (mux_Vars r) ''resourceGroupId'') = Inr resourceGroupId"
      and "vars_get (mux_Vars r) ''groupType'' = groupType"
      and "groupType \<noteq> ''env-group''" and "groupType \<noteq> []" and "groupType \<noteq> ''app-group''"
  shows "getGroupTypeAndAuthFunc K handler groupType = ([], None, Some (InvalidGroupType groupType))
       \<and> DeleteResourceGroup K handler r =
           call_DeleteResourceGroup resourceGroupId [] (Header_token r) None #
           (case service_DeleteResourceGroup handler resourceGroupId [] (Header_token r) None of
              (resp, Some err) \<Rightarrow> [WriteJsonResp (Some err) payload_nil StatusInternalServerError]
            | (resp, None) \<Rightarrow> [WriteJsonResp None (payload_result resp) StatusOK])
       \<and> service_calls (DeleteResourceGroup K handler r) =
           [call_DeleteResourceGroup resourceGroupId [] (Header_token r) None]
       \<and> WriteJsonResp err p StatusBadRequest \<notin> set (DeleteResourceGroup K handler r)"
proof -
  have g: "getGroupTypeAndAuthFunc K handler groupType = ([], None, Some (InvalidGroupType groupType))"
    using assms by (simp add: getGroupTypeAndAuthFunc_def)
  have d: "DeleteResourceGroup K handler r =
           call_DeleteResourceGroup resourceGroupId [] (Header_token r) None #
           (case service_DeleteResourceGroup handler resourceGroupId [] (Header_token r) None of
              (resp, Some err) \<Rightarrow> [WriteJsonResp (Some err) payload_nil StatusInternalServerError]
            | (resp, None) \<Rightarrow> [WriteJsonResp None (payload_result resp) StatusOK])"
    unfolding DeleteResourceGroup_def Let_def using assms(1,2) g by simp
  show ?thesis
    unfolding d using g
    by (simp add: service_calls_def StatusBadRequest_def StatusInternalServerError_def StatusOK_def
        split: prod.split option.split)
qed

theorem delete_ignores_resolver_error_witness:
  "Atoi (vars_get (mux_Vars example_request) ''resourceGroupId'') = Inr 9
 \<and> vars_get (mux_Vars example_request) ''groupType'' = ''team''
 \<and> getGroupTypeAndAuthFunc example_constants example_handler ''team'' =
      ([], None, Some (InvalidGroupType ''team''))
 \<and> DeleteResourceGroup example_constants example_handler example_request =
      [call_DeleteResourceGroup 9 [] ''secret'' None,
       WriteJsonResp None (payload_result ''deleted'') 200]"
proof -
  have a: "Atoi (vars_get (mux_Vars example_request) ''resourceGroupId'') = Inr 9"
    by (simp add: example_request_def vars_get_def Atoi_def isDigit_def digitVal_def)
  have v: "vars_get (mux_Vars example_request) ''groupType'' = ''team''"
    by (simp add: example_request_def vars_get_def)
  have s: "service_DeleteResourceGroup example_handler 9 [] ''secret'' None = (''deleted'', None)"
    by (simp add: example_handler_def)
  have t: "Header_token example_request = ''secret''"
    by (simp add: example_request_def)
  show ?thesis
    using delete_ignores_resolver_error [OF a v, of example_constants example_handler] a v s t
    by (simp add: StatusOK_def)
qed

subsection \<open>Create, update and the permission check once the kind is resolved\<close>

text \<open>
  The events of the three handlers on the path where the user is known, the body decodes and
  the resolver accepts the group type. The request that is validated and handed on is the
  specification's projection, applied once to the request as it stands after the kind has
  been stored in it.
\<close>

lemma UpdateResourceGroup_resolved:
  assumes "userService_GetLoggedInUser handler r = (userId, None)" and "userId \<noteq> 0"
      and "Body_Decode r = (d, None)"
      and "getGroupTypeAndAuthFunc K handler (GroupType d) = (kind, authFunc, None)"
      and "n = spec_normalize K kind (d\<lparr>UserId := userId, GroupType := kind\<rparr>)"
  shows "UpdateResourceGroup K handler r =
           call_validator_Struct n #
           (case validator_Struct handler n of
              Some err \<Rightarrow> [WriteJsonResp (Some err) payload_nil StatusBadRequest]
            | None \<Rightarrow>
                call_UpdateResourceGroup (n\<lparr>CheckAuthBatch := authFunc\<rparr>) (Header_token r) #
                (case service_UpdateResourceGroup handler (n\<lparr>CheckAuthBatch := authFunc\<rparr>)
                        (Header_token r) of
                   (resp, Some err) \<Rightarrow>
                     [WriteJsonResp (Some err) (payload_result resp) StatusInternalServerError]
                 | (resp, None) \<Rightarrow> [WriteJsonResp None (payload_result resp) StatusOK]))"
  unfolding UpdateResourceGroup_def Let_def using assms
  by (cases "kind = APP_GROUP K"; cases "0 < EnvironmentId d"; cases "AppIds d")
     (simp_all add: spec_normalize_def split: option.split prod.split)

lemma CreateResourceGroup_resolved:
  assumes "userService_GetLoggedInUser handler r = (userId, None)" and "userId \<noteq> 0"
      and "Body_Decode r = (d, None)"
      and "validator_Struct handler (d\<lparr>UserId := userId\<rparr>) = None"
      and "Atoi (vars_get (mux_Vars r) ''resourceId'') = Inr resourceId"
      and "getGroupTypeAndAuthFunc K handler (GroupType d) = (kind, authFunc, None)"
      and "n = spec_normalize K kind
                 (d\<lparr>UserId := userId, ParentResourceId := resourceId, GroupType := kind\<rparr>)"
  shows "CreateResourceGroup K handler r =
           call_validator_Struct (d\<lparr>UserId := userId\<rparr>) #
           call_validator_Struct n #
           (case validator_Struct handler n of
              Some err \<Rightarrow> [WriteJsonResp (Some err) payload_nil StatusBadRequest]
            | None \<Rightarrow>
                call_CreateResourceGroup (n\<lparr>CheckAuthBatch := authFunc\<rparr>) (Header_token r) #
                (case service_CreateResourceGroup handler (n\<lparr>CheckAuthBatch := authFunc\<rparr>)
                        (Header_token r) of
                   (resp, Some err) \<Rightarrow>
                     [WriteJsonResp (Some err) payload_nil StatusInternalServerError]
                 | (resp, None) \<Rightarrow> [WriteJsonResp None (payload_result resp) StatusOK]))"
  unfolding CreateResourceGroup_def Let_def using assms
  by (cases "kind = APP_GROUP K"; cases "0 < EnvironmentId d"; cases "AppIds d")
     (simp_all add: spec_normalize_def split: option.split prod.split)

lemma CheckResourceGroupPermissions_resolved:
  assumes "userService_GetLoggedInUser handler r = (userId, None)" and "userId \<noteq> 0"
      and "Body_Decode r = (d, None)"
      and "Atoi (vars_get (mux_Vars r) ''resourceId'') = Inr resourceId"
      and "getGroupTypeAndAuthFunc K handler (GroupType d) = (kind, authFunc, None)"
      and "n = spec_normalize K kind
                 (d\<lparr>UserId := userId, GroupType := kind, ParentResourceId := resourceId\<rparr>)"
  shows "CheckResourceGroupPermissions K handler r =
           call_CheckResourceGroupPermissions (n\<lparr>CheckAuthBatch := authFunc\<rparr>) (Header_token r) #
           (case service_CheckResourceGroupPermissions handler (n\<lparr>CheckAuthBatch := authFunc\<rparr>)
                   (Header_token r) of
              (resp, Some err) \<Rightarrow> [WriteJsonResp (Some err) payload_nil StatusInternalServerError]
            | (resp, None) \<Rightarrow> [WriteJsonResp None (payload_result resp) StatusOK])"
  unfolding CheckResourceGroupPermissions_def Let_def using assms
  by (cases "kind = APP_GROUP K"; cases "0 < EnvironmentId d"; cases "AppIds d")
     (simp_all add: spec_normalize_def split: option.split prod.split)


text \<open>
  Claim C2. After kind resolution, create and update (and the permission check) hand to the
  validator and to the service the request to which the legacy projection has been applied
  once: for \<open>APP_GROUP\<close>, \<open>ParentResourceId\<close> becomes \<open>EnvironmentId\<close> when that is positive
  and \<open>ResourceIds\<close> becomes \<open>AppIds\<close> when that is non-empty, each override on its own; for
  \<open>ENV_GROUP\<close> (a constant different from \<open>APP_GROUP\<close>) the request is unchanged.
\<close>

theorem normalization_applied_once:
  assumes "userService_GetLoggedInUser handler r = (userId, None)" and "userId \<noteq> 0"
      and "Body_Decode r = (d, None)"
      and "getGroupTypeAndAuthFunc K handler (GroupType d) = (kind, authFunc, None)"
      and "q = d\<lparr>UserId := userId, GroupType := kind\<rparr>"
  shows "(validator_Struct handler (spec_normalize K kind q) = None \<longrightarrow>
            service_calls (UpdateResourceGroup K handler r) =
              [call_UpdateResourceGroup ((spec_normalize K kind q)\<lparr>CheckAuthBatch := authFunc\<rparr>)
                 (Header_token r)])
       \<and> (validator_Struct handler (d\<lparr>UserId := userId\<rparr>) = None \<longrightarrow>
          Atoi (vars_get (mux_Vars r) ''resourceId'') = Inr resourceId \<longrightarrow>
          validator_Struct handler (spec_normalize K kind (q\<lparr>ParentResourceId := resourceId\<rparr>)) = None \<longrightarrow>
            service_calls (CreateResourceGroup K handler r) =
              [call_CreateResourceGroup
                 ((spec_normalize K kind (q\<lparr>ParentResourceId := resourceId\<rparr>))\<lparr>CheckAuthBatch := authFunc\<rparr>)
                 (Header_token r)])
       \<and> (Atoi (vars_get (mux_Vars r) ''resourceId'') = Inr resourceId \<longrightarrow>
            service_calls (CheckResourceGroupPermissions K handler r) =
              [call_CheckResourceGroupPermissions
                 ((spec_normalize K kind (q\<lparr>ParentResourceId := resourceId\<rparr>))\<lparr>CheckAuthBatch := authFunc\<rparr>)
                 (Header_token r)])
       \<and> (kind = APP_GROUP K \<longrightarrow>
            ParentResourceId (spec_normalize K kind q) =
              (if EnvironmentId d > 0 then EnvironmentId d else ParentResourceId d)
          \<and> ResourceIds (spec_normalize K kind q) =
              (if AppIds d \<noteq> [] then AppIds d else ResourceIds d)
          \<and> EnvironmentId (spec_normalize K kind q) = EnvironmentId d
          \<and> AppIds (spec_normalize K kind q) = AppIds d)
       \<and> (kind = ENV_GROUP K \<longrightarrow> APP_GROUP K \<noteq> ENV_GROUP K \<longrightarrow> spec_normalize K kind q = q)"
proof -
  have u: "validator_Struct handler (spec_normalize K kind q) = None \<longrightarrow>
            service_calls (UpdateResourceGroup K handler r) =
              [call_UpdateResourceGroup ((spec_normalize K kind q)\<lparr>CheckAuthBatch := authFunc\<rparr>)
                 (Header_token r)]"
    using UpdateResourceGroup_resolved [OF assms(1-4) refl] assms(5)
    by (simp add: service_calls_def split: prod.split option.split)
  have c: "validator_Struct handler (d\<lparr>UserId := userId\<rparr>) = None \<longrightarrow>
          Atoi (vars_get (mux_Vars r) ''resourceId'') = Inr resourceId \<longrightarrow>
          validator_Struct handler (spec_normalize K kind (q\<lparr>ParentResourceId := resourceId\<rparr>)) = None \<longrightarrow>
            service_calls (CreateResourceGroup K handler r) =
              [call_CreateResourceGroup
                 ((spec_normalize K kind (q\<lparr>ParentResourceId := resourceId\<rparr>))\<lparr>CheckAuthBatch := authFunc\<rparr>)
                 (Header_token r)]"
  proof (intro impI)
    assume v: "validator_Struct handler (d\<lparr>UserId := userId\<rparr>) = None"
       and a: "Atoi (vars_get (mux_Vars r) ''resourceId'') = Inr resourceId"
       and w: "validator_Struct handler (spec_normalize K kind (q\<lparr>ParentResourceId := resourceId\<rparr>)) = None"
    have e: "q\<lparr>ParentResourceId := resourceId\<rparr> =
             d\<lparr>UserId := userId, ParentResourceId := resourceId, GroupType := kind\<rparr>"
      using assms(5) by simp
    show "service_calls (CreateResourceGroup K handler r) =
              [call_CreateResourceGroup
                 ((spec_normalize K kind (q\<lparr>ParentResourceId := resourceId\<rparr>))\<lparr>CheckAuthBatch := authFunc\<rparr>)
                 (Header_token r)]"
      using CreateResourceGroup_resolved [OF assms(1-3) v a assms(4) refl] w
      unfolding e by (simp add: service_calls_def split: prod.split option.split)
  qed
  have p: "Atoi (vars_get (mux_Vars r) ''resourceId'') = Inr resourceId \<longrightarrow>
            service_calls (CheckResourceGroupPermissions K handler r) =
              [call_CheckResourceGroupPermissions
                 ((spec_normalize K kind (q\<lparr>ParentResourceId := resourceId\<rparr>))\<lparr>CheckAuthBatch := authFunc\<rparr>)
                 (Header_token r)]"
  proof
    assume a: "Atoi (vars_get (mux_Vars r) ''resourceId'') = Inr resourceId"
    show "service_calls (CheckResourceGroupPermissions K handler r) =
              [call_CheckResourceGroupPermissions
                 ((spec_normalize K kind (q\<lparr>ParentResourceId := resourceId\<rparr>))\<lparr>CheckAuthBatch := authFunc\<rparr>)
                 (Header_token r)]"
      using CheckResourceGroupPermissions_resolved [OF assms(1-3) a assms(4) refl] assms(5)
      by (simp add: service_calls_def split: prod.split option.split)
  qed
  have f: "kind = APP_GROUP K \<longrightarrow>
            ParentResourceId (spec_normalize K kind q) =
              (if EnvironmentId d > 0 then EnvironmentId d else ParentResourceId d)
          \<and> ResourceIds (spec_normalize K kind q) =
              (if AppIds d \<noteq> [] then AppIds d else ResourceIds d)
          \<and> EnvironmentId (spec_normalize K kind q) = EnvironmentId d
          \<and> AppIds (spec_normalize K kind q) = AppIds d"
    using assms(5) by (simp add: spec_normalize_def)
  have n: "kind = ENV_GROUP K \<longrightarrow> APP_GROUP K \<noteq> ENV_GROUP K \<longrightarrow> spec_normalize K kind q = q"
    by (simp add: spec_normalize_def)
  from u c p f n show ?thesis
    by blast
qed


theorem normalization_applied_once_witness:
  "service_calls (UpdateResourceGroup example_constants example_handler example_request) =
     [call_UpdateResourceGroup
        \<lparr>GroupType = ''app-group'', ParentResourceId = 7, ResourceIds = [1, 2], EnvironmentId = 7,
         AppIds = [1, 2], UserId = 2,
         CheckAuthBatch = Some (checkAppAuthBatch example_constants example_handler)\<rparr> ''secret'']
 \<and> service_calls (CreateResourceGroup example_constants example_handler example_request) =
     [call_CreateResourceGroup
        \<lparr>GroupType = ''app-group'', ParentResourceId = 7, ResourceIds = [1, 2], EnvironmentId = 7,
         AppIds = [1, 2], UserId = 2,
         CheckAuthBatch = Some (checkAppAuthBatch example_constants example_handler)\<rparr> ''secret'']
 \<and> service_calls (CreateResourceGroup example_constants example_handler
        (example_request\<lparr>Body_Decode := (example_body\<lparr>GroupType := ''env-group''\<rparr>, None)\<rparr>)) =
     [call_CreateResourceGroup
        \<lparr>GroupType = ''env-group'', ParentResourceId = 5, ResourceIds = [], EnvironmentId = 7,
         AppIds = [1, 2], UserId = 2,
         CheckAuthBatch = Some (checkEnvAuthBatch example_constants example_handler)\<rparr> ''secret'']"
proof -
  let ?r = "example_request\<lparr>Body_Decode := (example_body\<lparr>GroupType := ''env-group''\<rparr>, None)\<rparr>"
  have u: "userService_GetLoggedInUser example_handler example_request = (2, None)"
          "userService_GetLoggedInUser example_handler ?r = (2, None)"
    by (simp_all add: example_handler_def example_request_def)
  have n: "(2::int) \<noteq> 0"
    by simp
  have d: "Body_Decode example_request = (example_body, None)"
          "Body_Decode ?r = (example_body\<lparr>GroupType := ''env-group''\<rparr>, None)"
    by (simp_all add: example_request_def)
  have g: "getGroupTypeAndAuthFunc example_constants example_handler (GroupType example_body) =
             (''app-group'', Some (checkAppAuthBatch example_constants example_handler), None)"
          "getGroupTypeAndAuthFunc example_constants example_handler
             (GroupType (example_body\<lparr>GroupType := ''env-group''\<rparr>)) =
             (''env-group'', Some (checkEnvAuthBatch example_constants example_handler), None)"
    by (simp_all add: getGroupTypeAndAuthFunc_def example_body_def example_constants_def)
  have a: "Atoi (vars_get (mux_Vars example_request) ''resourceId'') = Inr 5"
          "Atoi (vars_get (mux_Vars ?r) ''resourceId'') = Inr 5"
    by (simp_all add: example_request_def vars_get_def Atoi_def isDigit_def digitVal_def)
  have v: "validator_Struct example_handler = (\<lambda>request. None)"
    by (simp add: example_handler_def)
  have t: "Header_token example_request = ''secret''" "Header_token ?r = ''secret''"
    by (simp_all add: example_request_def)
  have k: "APP_GROUP example_constants = ''app-group''" "ENV_GROUP example_constants = ''env-group''"
    by (simp_all add: example_constants_def)
  show ?thesis
    using normalization_applied_once [OF u(1) n d(1) g(1) refl, of 5]
      normalization_applied_once [OF u(2) n d(2) g(2) refl, of 5]
    by (simp add: a v t k spec_normalize_def example_body_def)
qed

subsection \<open>Where create and update validate\<close>

lemma UpdateResourceGroup_validates_at_most_once:
  "length (validator_calls (UpdateResourceGroup K handler r)) \<le> 1"
proof -
  obtain userId uerr where u: "userService_GetLoggedInUser handler r = (userId, uerr)"
    by (cases "userService_GetLoggedInUser handler r")
  obtain d derr where d: "Body_Decode r = (d, derr)"
    by (cases "Body_Decode r")
  obtain kind authFunc err
    where g: "getGroupTypeAndAuthFunc K handler (GroupType d) = (kind, authFunc, err)"
    by (cases "getGroupTypeAndAuthFunc K handler (GroupType d)")
  show ?thesis
    unfolding UpdateResourceGroup_def Let_def validator_calls_def u d using g
    by (cases "kind = APP_GROUP K"; cases "0 < EnvironmentId d"; cases "AppIds d")
       (simp_all split: sum.split prod.split option.split)
qed

lemma CreateResourceGroup_validates_at_most_twice:
  "length (validator_calls (CreateResourceGroup K handler r)) \<le> 2"
proof -
  obtain userId uerr where u: "userService_GetLoggedInUser handler r = (userId, uerr)"
    by (cases "userService_GetLoggedInUser handler r")
  obtain d derr where d: "Body_Decode r = (d, derr)"
    by (cases "Body_Decode r")
  obtain kind authFunc err
    where g: "getGroupTypeAndAuthFunc K handler (GroupType d) = (kind, authFunc, err)"
    by (cases "getGroupTypeAndAuthFunc K handler (GroupType d)")
  consider (unauthorized) "userId = 0 \<or> uerr \<noteq> None"
    | (undecoded) "userId \<noteq> 0" "uerr = None" "derr \<noteq> None"
    | (invalid) "userId \<noteq> 0" "uerr = None" "derr = None"
        "validator_Struct handler (d\<lparr>UserId := userId\<rparr>) \<noteq> None"
    | (no_id) "userId \<noteq> 0" "uerr = None" "derr = None"
        "validator_Struct handler (d\<lparr>UserId := userId\<rparr>) = None"
        "isl (Atoi (vars_get (mux_Vars r) ''resourceId''))"
    | (unresolved) resourceId where "userId \<noteq> 0" "uerr = None" "derr = None"
        "validator_Struct handler (d\<lparr>UserId := userId\<rparr>) = None"
        "Atoi (vars_get (mux_Vars r) ''resourceId'') = Inr resourceId" "err \<noteq> None"
    | (resolved) resourceId where "userId \<noteq> 0" "uerr = None" "derr = None"
        "validator_Struct handler (d\<lparr>UserId := userId\<rparr>) = None"
        "Atoi (vars_get (mux_Vars r) ''resourceId'') = Inr resourceId" "err = None"
    by (cases "Atoi (vars_get (mux_Vars r) ''resourceId'')"; simp; blast)
  then show ?thesis
  proof cases
    case unauthorized
    then show ?thesis
      unfolding CreateResourceGroup_def Let_def validator_calls_def u by auto
  next
    case undecoded
    then show ?thesis
      unfolding CreateResourceGroup_def Let_def validator_calls_def u d by auto
  next
    case invalid
    then show ?thesis
      unfolding CreateResourceGroup_def Let_def validator_calls_def u d by auto
  next
    case no_id
    then show ?thesis
      unfolding CreateResourceGroup_def Let_def validator_calls_def u d
      by (cases "Atoi (vars_get (mux_Vars r) ''resourceId'')") auto
  next
    case unresolved
    then show ?thesis
      unfolding CreateResourceGroup_def Let_def validator_calls_def u d using g by auto
  next
    case resolved
    then show ?thesis
      using CreateResourceGroup_resolved [of handler r userId d resourceId K kind authFunc, OF _ _ _ _ _ _ refl] u d g
      by (simp add: validator_calls_def split: option.split prod.split)
  qed
qed

lemma CreateResourceGroup_validates_decoded_first:
  assumes "userService_GetLoggedInUser handler r = (userId, None)" and "userId \<noteq> 0"
      and "Body_Decode r = (d, None)"
  shows "\<exists>rest. CreateResourceGroup K handler r = call_validator_Struct (d\<lparr>UserId := userId\<rparr>) # rest"
  unfolding CreateResourceGroup_def Let_def using assms by simp

text \<open>
  Claim C5, as amended. \<open>UpdateResourceGroup\<close> validates at most once, and on the path where
  the user is known, the body decodes and the kind resolves exactly once: the request after
  the legacy-compatibility normalization, not the request as decoded. \<open>CreateResourceGroup\<close>
  validates at most twice: the decoded request (with the user id stored) and, when that
  passes, the route's \<open>resourceId\<close> parses and the kind resolves, the normalized request.
\<close>

theorem validation_points:
  "length (validator_calls (UpdateResourceGroup K handler r)) \<le> 1
 \<and> length (validator_calls (CreateResourceGroup K handler r)) \<le> 2
 \<and> (userService_GetLoggedInUser handler r = (userId, None) \<and> userId \<noteq> 0 \<and>
    Body_Decode r = (d, None) \<longrightarrow>
      (\<exists>rest. validator_calls (CreateResourceGroup K handler r) =
                call_validator_Struct (d\<lparr>UserId := userId\<rparr>) # rest)
    \<and> (getGroupTypeAndAuthFunc K handler (GroupType d) = (kind, authFunc, None) \<longrightarrow>
          validator_calls (UpdateResourceGroup K handler r) =
            [call_validator_Struct (spec_normalize K kind (d\<lparr>UserId := userId, GroupType := kind\<rparr>))]
        \<and> (validator_Struct handler (d\<lparr>UserId := userId\<rparr>) = None \<and>
           Atoi (vars_get (mux_Vars r) ''resourceId'') = Inr resourceId \<longrightarrow>
             validator_calls (CreateResourceGroup K handler r) =
               [call_validator_Struct (d\<lparr>UserId := userId\<rparr>),
                call_validator_Struct
                  (spec_normalize K kind
                     (d\<lparr>UserId := userId, ParentResourceId := resourceId, GroupType := kind\<rparr>))])))"
proof -
  have first: "\<exists>rest. validator_calls (CreateResourceGroup K handler r) =
                call_validator_Struct (d\<lparr>UserId := userId\<rparr>) # rest"
    if h: "userService_GetLoggedInUser handler r = (userId, None)" "userId \<noteq> 0"
       "Body_Decode r = (d, None)"
  proof -
    obtain rest where "CreateResourceGroup K handler r = call_validator_Struct (d\<lparr>UserId := userId\<rparr>) # rest"
      using CreateResourceGroup_validates_decoded_first [OF h] by blast
    then show ?thesis
      by (simp add: validator_calls_def)
  qed
  have upd: "validator_calls (UpdateResourceGroup K handler r) =
            [call_validator_Struct (spec_normalize K kind (d\<lparr>UserId := userId, GroupType := kind\<rparr>))]"
    if "userService_GetLoggedInUser handler r = (userId, None)" "userId \<noteq> 0"
       "Body_Decode r = (d, None)"
       "getGroupTypeAndAuthFunc K handler (GroupType d) = (kind, authFunc, None)"
    using UpdateResourceGroup_resolved [OF that refl]
    by (simp add: validator_calls_def split: prod.split option.split)
  have cre: "validator_calls (CreateResourceGroup K handler r) =
               [call_validator_Struct (d\<lparr>UserId := userId\<rparr>),
                call_validator_Struct
                  (spec_normalize K kind
                     (d\<lparr>UserId := userId, ParentResourceId := resourceId, GroupType := kind\<rparr>))]"
    if "userService_GetLoggedInUser handler r = (userId, None)" "userId \<noteq> 0"
       "Body_Decode r = (d, None)"
       "validator_Struct handler (d\<lparr>UserId := userId\<rparr>) = None"
       "Atoi (vars_get (mux_Vars r) ''resourceId'') = Inr resourceId"
       "getGroupTypeAndAuthFunc K handler (GroupType d) = (kind, authFunc, None)"
    using CreateResourceGroup_resolved [OF that refl]
    by (simp add: validator_calls_def split: prod.split option.split)
  show ?thesis
    using UpdateResourceGroup_validates_at_most_once [of K handler r]
      CreateResourceGroup_validates_at_most_twice [of K handler r] first upd cre
    by blast
qed

theorem validation_points_witness:
  "validator_calls (UpdateResourceGroup example_constants example_handler example_request) =
     [call_validator_Struct
        \<lparr>GroupType = ''app-group'', ParentResourceId = 7, ResourceIds = [1, 2], EnvironmentId = 7,
         AppIds = [1, 2], UserId = 2, CheckAuthBatch = None\<rparr>]
 \<and> validator_calls (CreateResourceGroup example_constants example_handler example_request) =
     [call_validator_Struct
        \<lparr>GroupType = [], ParentResourceId = 0, ResourceIds = [], EnvironmentId = 7,
         AppIds = [1, 2], UserId = 2, CheckAuthBatch = None\<rparr>,
      call_validator_Struct
        \<lparr>GroupType = ''app-group'', ParentResourceId = 7, ResourceIds = [1, 2], EnvironmentId = 7,
         AppIds = [1, 2], UserId = 2, CheckAuthBatch = None\<rparr>]"
proof -
  have u: "userService_GetLoggedInUser example_handler example_request = (2, None)"
    by (simp add: example_handler_def example_request_def)
  have d: "Body_Decode example_request = (example_body, None)"
    by (simp add: example_request_def)
  have g: "getGroupTypeAndAuthFunc example_constants example_handler [] =
             (''app-group'', Some (checkAppAuthBatch example_constants example_handler), None)"
    by (simp add: getGroupTypeAndAuthFunc_def example_constants_def)
  have a: "Atoi (vars_get (mux_Vars example_request) ''resourceId'') = Inr 5"
    by (simp add: example_request_def vars_get_def Atoi_def isDigit_def digitVal_def)
  have v: "validator_Struct example_handler = (\<lambda>request. None)"
    by (simp add: example_handler_def)
  have k: "APP_GROUP example_constants = ''app-group''"
    by (simp add: example_constants_def)
  show ?thesis
    using validation_points [of example_constants example_handler example_request 2 example_body
        "''app-group''" "Some (checkAppAuthBatch example_constants example_handler)" 5]
    by (simp add: u d g a v k spec_normalize_def example_body_def)
qed

text \<open>
  Claim C5 as stated fails: on the legacy-shaped request the one validation of
  \<open>UpdateResourceGroup\<close> is applied to the normalized request (kind stored, parent id 7,
  resource ids 1 and 2), which is not the request as decoded.
\<close>

theorem update_validates_after_normalization:
  "validator_calls (UpdateResourceGroup example_constants example_handler example_request) =
     [call_validator_Struct
        \<lparr>GroupType = ''app-group'', ParentResourceId = 7, ResourceIds = [1, 2], EnvironmentId = 7,
         AppIds = [1, 2], UserId = 2, CheckAuthBatch = None\<rparr>]
 \<and> validator_calls (UpdateResourceGroup example_constants example_handler example_request) \<noteq>
     [call_validator_Struct (fst (Body_Decode example_request)\<lparr>UserId := 2\<rparr>)]"
proof -
  have u: "userService_GetLoggedInUser example_handler example_request = (2, None)"
    by (simp add: example_handler_def example_request_def)
  have d: "Body_Decode example_request = (example_body, None)"
    by (simp add: example_request_def)
  have g: "getGroupTypeAndAuthFunc example_constants example_handler (GroupType example_body) =
             (''app-group'', Some (checkAppAuthBatch example_constants example_handler), None)"
    by (simp add: getGroupTypeAndAuthFunc_def example_body_def example_constants_def)
  have v: "validator_Struct example_handler = (\<lambda>request. None)"
    by (simp add: example_handler_def)
  have k: "APP_GROUP example_constants = ''app-group''"
    by (simp add: example_constants_def)
  show ?thesis
    using UpdateResourceGroup_resolved [OF u _ d g refl]
    by (simp add: validator_calls_def v k d spec_normalize_def example_body_def
        split: prod.split option.split)
qed

section \<open>Verified properties of the type utilities\<close>

subsection \<open>Classification helpers\<close>

text \<open>
  Claim C10. \<open>IsPrimitiveType(nil)\<close> is false: the zero \<open>Value\<close> has kind \<open>Invalid\<close>.
  \<open>IsStringType(nil)\<close> panics: \<open>reflect.TypeOf(nil)\<close> is the nil \<open>Type\<close> and \<open>Kind()\<close> is
  called on it. For every other value both return: \<open>IsStringType\<close> says whether the kind is
  \<open>String\<close>, and \<open>IsPrimitiveType\<close>, which has no failing step at all (its model is a plain
  boolean), says whether the kind is one of the thirteen numeric and boolean kinds.
\<close>

theorem classification_at_nil:
  "IsPrimitiveType (V_nil :: 'f iface) = False
 \<and> IsStringType (V_nil :: 'f iface) = Inl nil_pointer_dereference
 \<and> ((v :: 'f iface) \<noteq> V_nil \<longrightarrow> IsStringType v = Inr (kind_of v = reflect_String))
 \<and> (v \<noteq> V_nil \<longrightarrow>
      IsPrimitiveType v =
        (kind_of v \<in> {reflect_Int, reflect_Int8, reflect_Int16, reflect_Int32, reflect_Int64,
                      reflect_Uint, reflect_Uint8, reflect_Uint16, reflect_Uint32, reflect_Uint64,
                      reflect_Float32, reflect_Float64, reflect_Bool}))"
  by (cases v)
     (auto simp: IsPrimitiveType_def IsStringType_def ValueOf_def Value_Kind_def TypeOf_def
        Type_Kind_def)

theorem classification_at_nil_witness:
  "IsStringType (V_string ''x'' :: 'f iface) = Inr True
 \<and> IsStringType (V_int 7 :: 'f iface) = Inr False
 \<and> IsPrimitiveType (V_int 7 :: 'f iface) = True
 \<and> IsPrimitiveType (V_string ''x'' :: 'f iface) = False
 \<and> IsPrimitiveType (V_other reflect_Uint8 :: 'f iface) = True"
  using classification_at_nil [of "V_string ''x'' :: 'f iface"]
    classification_at_nil [of "V_int 7 :: 'f iface"]
    classification_at_nil [of "V_other reflect_Uint8 :: 'f iface"]
  by simp

subsection \<open>Trimming double quotes\<close>

lemma dropWhile_quotes:
  "\<exists>n. s = replicate n dquote @ dropWhile (\<lambda>c. c \<in> set [dquote]) s"
proof -
  have "\<forall>c \<in> set (takeWhile (\<lambda>c. c \<in> set [dquote]) s). c = dquote"
    by (auto dest: set_takeWhileD)
  then have "replicate (length (takeWhile (\<lambda>c. c \<in> set [dquote]) s)) dquote =
             takeWhile (\<lambda>c. c \<in> set [dquote]) s"
    by (simp add: replicate_length_same)
  then have "s = replicate (length (takeWhile (\<lambda>c. c \<in> set [dquote]) s)) dquote @
                 dropWhile (\<lambda>c. c \<in> set [dquote]) s"
    by simp
  then show ?thesis ..
qed

lemma Trim_quotes_decompose:
  "\<exists>n m. s = replicate n dquote @ Trim s [dquote] @ replicate m dquote"
proof -
  let ?t = "dropWhile (\<lambda>c. c \<in> set [dquote]) s"
  obtain n where n: "s = replicate n dquote @ ?t"
    using dropWhile_quotes by blast
  obtain m where m: "rev ?t = replicate m dquote @ dropWhile (\<lambda>c. c \<in> set [dquote]) (rev ?t)"
    using dropWhile_quotes by blast
  have "?t = rev (rev ?t)"
    by simp
  also have "\<dots> = rev (replicate m dquote @ dropWhile (\<lambda>c. c \<in> set [dquote]) (rev ?t))"
    using m by simp
  also have "\<dots> = Trim s [dquote] @ replicate m dquote"
    by (simp add: Trim_def)
  finally have "s = replicate n dquote @ Trim s [dquote] @ replicate m dquote"
    using n by simp
  then show ?thesis by blast
qed

lemma Trim_quotes_ends:
  assumes "Trim s [dquote] \<noteq> []"
  shows "hd (Trim s [dquote]) \<noteq> dquote" and "last (Trim s [dquote]) \<noteq> dquote"
proof -
  let ?p = "\<lambda>c. c \<in> set [dquote]"
  let ?t = "dropWhile ?p s"
  let ?u = "dropWhile ?p (rev ?t)"
  have u: "?u \<noteq> []"
    using assms by (simp add: Trim_def)
  then have "\<not> ?p (hd ?u)"
    by (rule hd_dropWhile)
  moreover have "last (Trim s [dquote]) = hd ?u"
    using u by (simp add: Trim_def last_rev)
  ultimately show "last (Trim s [dquote]) \<noteq> dquote"
    by simp
  have t: "?t \<noteq> []"
  proof
    assume "?t = []"
    then have "?u = []" by (simp only: rev.simps dropWhile.simps)
    with u show False by (rule notE)
  qed
  then have nt: "\<not> ?p (hd ?t)"
    by (rule hd_dropWhile)
  have "rev ?t = takeWhile ?p (rev ?t) @ ?u"
    by simp
  then have "?t = rev ?u @ rev (takeWhile ?p (rev ?t))"
    by (metis rev_append rev_rev_ident)
  then have "hd ?t = hd (rev ?u)"
    using u by (metis hd_append2 rev_is_Nil_conv)
  then show "hd (Trim s [dquote]) \<noteq> dquote"
    using nt by (simp add: Trim_def)
qed

subsection \<open>What the three parsers reject\<close>

lemma Atoi_rejects_non_numeric:
  assumes "c \<noteq> CHR ''+''" and "c \<noteq> CHR ''-''" and "\<not> isDigit c"
  shows "Atoi (c # cs) = Inl (ErrSyntax ''Atoi'' (c # cs))"
  using assms by (simp add: Atoi_def)

lemma quoted_is_text:
  "DestringifyValue atof64 (dquote # cs) = (V_string (Trim (dquote # cs) [dquote]), None)"
proof -
  have "Atoi (dquote # cs) = Inl (ErrSyntax ''Atoi'' (dquote # cs))"
    by (rule Atoi_rejects_non_numeric) (simp_all add: dquote_def isDigit_def)
  moreover have "ParseFloat atof64 (dquote # cs) = Inl (ErrSyntax ''ParseFloat'' (dquote # cs))"
    by (simp add: ParseFloat_def dquote_def)
  moreover have "ParseBool (dquote # cs) = Inl (ErrSyntax ''ParseBool'' (dquote # cs))"
    by (simp add: ParseBool_def dquote_def)
  ultimately show ?thesis
    by (simp add: DestringifyValue_def)
qed


subsection \<open>DestringifyValue\<close>

text \<open>
  Claim C8, as amended. \<open>DestringifyValue\<close> never returns an error. Its value is the
  \<open>int\<close> when \<open>Atoi\<close> accepts the input; otherwise the \<open>float64\<close> when \<open>ParseFloat\<close>
  accepts it; otherwise the \<open>bool\<close> when \<open>ParseBool\<close> accepts it; otherwise the input with
  all of its leading and all of its trailing double quotes removed, and nothing else
  changed (no unescaping): the input is that text between two runs of double quotes, and
  the text neither starts nor ends with one.
\<close>

theorem DestringifyValue_cascade:
  "snd (DestringifyValue atof64 Data) = None
 \<and> (Atoi Data = Inr i \<longrightarrow> fst (DestringifyValue atof64 Data) = V_int i)
 \<and> (isl (Atoi Data) \<longrightarrow> ParseFloat atof64 Data = Inr f \<longrightarrow>
      fst (DestringifyValue atof64 Data) = V_float64 f)
 \<and> (isl (Atoi Data) \<longrightarrow> isl (ParseFloat atof64 Data) \<longrightarrow> ParseBool Data = Inr b \<longrightarrow>
      fst (DestringifyValue atof64 Data) = V_bool b)
 \<and> (isl (Atoi Data) \<longrightarrow> isl (ParseFloat atof64 Data) \<longrightarrow> isl (ParseBool Data) \<longrightarrow>
      fst (DestringifyValue atof64 Data) = V_string (Trim Data [dquote]))
 \<and> (\<exists>n m. Data = replicate n dquote @ Trim Data [dquote] @ replicate m dquote)
 \<and> (Trim Data [dquote] \<noteq> [] \<longrightarrow>
      hd (Trim Data [dquote]) \<noteq> dquote \<and> last (Trim Data [dquote]) \<noteq> dquote)"
proof -
  have "snd (DestringifyValue atof64 Data) = None"
    by (simp add: DestringifyValue_def split: sum.split)
  moreover have "Atoi Data = Inr i \<longrightarrow> fst (DestringifyValue atof64 Data) = V_int i"
    by (simp add: DestringifyValue_def)
  moreover have "isl (Atoi Data) \<longrightarrow> ParseFloat atof64 Data = Inr f \<longrightarrow>
      fst (DestringifyValue atof64 Data) = V_float64 f"
    by (cases "Atoi Data") (simp_all add: DestringifyValue_def)
  moreover have "isl (Atoi Data) \<longrightarrow> isl (ParseFloat atof64 Data) \<longrightarrow> ParseBool Data = Inr b \<longrightarrow>
      fst (DestringifyValue atof64 Data) = V_bool b"
    by (cases "Atoi Data"; cases "ParseFloat atof64 Data") (simp_all add: DestringifyValue_def)
  moreover have "isl (Atoi Data) \<longrightarrow> isl (ParseFloat atof64 Data) \<longrightarrow> isl (ParseBool Data) \<longrightarrow>
      fst (DestringifyValue atof64 Data) = V_string (Trim Data [dquote])"
    by (cases "Atoi Data"; cases "ParseFloat atof64 Data"; cases "ParseBool Data")
       (simp_all add: DestringifyValue_def)
  ultimately show ?thesis
    using Trim_quotes_decompose [of Data] Trim_quotes_ends [of Data] by blast
qed

theorem DestringifyValue_cascade_witness:
  "DestringifyValue example_atof64 ''42'' = (V_int 42, None)
 \<and> DestringifyValue example_atof64 ''1.5'' = (V_float64 (15, - 1), None)
 \<and> DestringifyValue example_atof64 ''True'' = (V_bool True, None)
 \<and> DestringifyValue example_atof64 ([dquote] @ ''1e400'' @ [dquote, dquote]) = (V_string ''1e400'', None)
 \<and> DestringifyValue example_atof64 ''1e400'' = (V_string ''1e400'', None)"
proof -
  have a: "Atoi ''42'' = Inr 42" "isl (Atoi ''1.5'')" "isl (Atoi ''True'')" "isl (Atoi ''1e400'')"
    "isl (Atoi ([dquote] @ ''1e400'' @ [dquote, dquote]))"
    by (simp_all add: Atoi_def isDigit_def digitVal_def dquote_def)
  have f: "ParseFloat example_atof64 ''1.5'' = Inr (15, - 1)"
    "isl (ParseFloat example_atof64 ''True'')" "isl (ParseFloat example_atof64 ''1e400'')"
    "isl (ParseFloat example_atof64 ([dquote] @ ''1e400'' @ [dquote, dquote]))"
    by (simp_all add: ParseFloat_def example_atof64_def dquote_def)
  have b: "ParseBool ''True'' = Inr True" "isl (ParseBool ''1e400'')"
    "isl (ParseBool ([dquote] @ ''1e400'' @ [dquote, dquote]))"
    by (simp_all add: ParseBool_def dquote_def)
  have t: "Trim ([dquote] @ ''1e400'' @ [dquote, dquote]) [dquote] = ''1e400''"
    "Trim ''1e400'' [dquote] = ''1e400''"
    by (simp_all add: Trim_def dquote_def)
  show ?thesis
    using DestringifyValue_cascade [of example_atof64 "''42''" 42 "(15, - 1)" True]
      DestringifyValue_cascade [of example_atof64 "''1.5''" 42 "(15, - 1)" True]
      DestringifyValue_cascade [of example_atof64 "''True''" 42 "(15, - 1)" True]
      DestringifyValue_cascade [of example_atof64 "[dquote] @ ''1e400'' @ [dquote, dquote]" 42 "(15, - 1)" True]
      DestringifyValue_cascade [of example_atof64 "''1e400''" 42 "(15, - 1)" True]
      a f b t
    by (simp add: prod_eq_iff)
qed

text \<open>
  Claim C8 as stated fails: of the input \<open>""a""\<close> (two double quotes on each side) a single
  stripped layer would leave \<open>"a"\<close>, and \<open>DestringifyValue\<close> returns \<open>a\<close>.
\<close>

theorem Trim_strips_every_layer:
  "fst (DestringifyValue example_atof64 ([dquote, dquote] @ ''a'' @ [dquote, dquote])) = V_string ''a''
 \<and> spec_strip_one_layer ([dquote, dquote] @ ''a'' @ [dquote, dquote]) = [dquote] @ ''a'' @ [dquote]
 \<and> fst (DestringifyValue example_atof64 ([dquote, dquote] @ ''a'' @ [dquote, dquote])) \<noteq>
     V_string (spec_strip_one_layer ([dquote, dquote] @ ''a'' @ [dquote, dquote]))"
  using quoted_is_text [of example_atof64 "[dquote] @ ''a'' @ [dquote, dquote]"]
  by (simp add: Trim_def spec_strip_one_layer_def dquote_def)

subsection \<open>StringifyValue after DestringifyValue, and back\<close>





subsection \<open>IsValidJSON and IsValidYAML\<close>

text \<open>The definitions that evaluate the scanner and the decoder on a concrete text.\<close>

lemmas scanner_defs =
  scanner_reset_def scanner_step_def scanner_eof_def scanner_error_def goto_def
  pushParseState_def popParseState_def maxNestingDepth_def
  stateBeginValue_def stateBeginValueOrEmpty_def stateBeginString_def
  stateBeginStringOrEmpty_def stateEndValue_def stateEndTop_def
  stateInString_def stateInStringEsc_def stateInStringEscU_def
  state0_def state1_def stateNeg_def stateDot_def stateDot0_def stateE_def stateESign_def
  stateE0_def stateLetter_def
  isSpace_def isDigit_def isDigit19_def isHex_def dquote_def backslash_def

lemmas Unmarshal_defs =
  IsValidJSON_def Unmarshal_map_def checkValid_def number_literals_def convertNumber_def
  ParseFloat_def List.map_filter_def

text \<open>
  In the state at the beginning of a value, white space is skipped and the first other byte
  gets the code of \<open>stateBeginValue\<close>: the first code that is not \<open>scanSkipSpace\<close> belongs
  to the first byte that is not white space.
\<close>

lemma stateBeginValue_space:
  "isSpace c \<Longrightarrow> stateBeginValue s c = (s, scanSkipSpace)"
  by (simp add: stateBeginValue_def)

lemma stateBeginValue_not_space:
  "\<not> isSpace c \<Longrightarrow> snd (stateBeginValue s c) \<noteq> scanSkipSpace"
  by (simp add: stateBeginValue_def goto_def pushParseState_def scanner_error_def Let_def)

lemma stateBeginValue_object:
  "snd (stateBeginValue s c) = scanBeginObject \<Longrightarrow> c = CHR ''{''"
  by (simp add: stateBeginValue_def goto_def pushParseState_def scanner_error_def Let_def
      split: if_splits)

lemma first_code_is_first_byte:
  assumes "scan_step s = at_BeginValue"
      and "dropWhile (\<lambda>op. snd op = scanSkipSpace) (zip data (scan_codes s data)) = (c, code) # ops"
  shows "first_byte data = Some c \<and> code = snd (stateBeginValue s c)"
  using assms
proof (induction data)
  case Nil
  then show ?case by simp
next
  case (Cons x data)
  have step: "scanner_step s x = stateBeginValue s x"
    using Cons.prems(1) by (simp add: scanner_step_def)
  show ?case
  proof (cases "isSpace x")
    case True
    then have "scanner_step s x = (s, scanSkipSpace)"
      using step by (simp add: stateBeginValue_space)
    then have "dropWhile (\<lambda>op. snd op = scanSkipSpace) (zip data (scan_codes s data)) = (c, code) # ops"
      using Cons.prems(2) by simp
    then have "first_byte data = Some c \<and> code = snd (stateBeginValue s c)"
      using Cons.IH Cons.prems(1) by blast
    then show ?thesis
      using True by (simp add: first_byte_def)
  next
    case False
    obtain s' code' where sc: "stateBeginValue s x = (s', code')"
      by (cases "stateBeginValue s x")
    then have "code' \<noteq> scanSkipSpace"
      using stateBeginValue_not_space [OF False, of s] by simp
    then have "c = x \<and> code = code'"
      using Cons.prems(2) step sc by simp
    then show ?thesis
      using False sc by (simp add: first_byte_def)
  qed
qed

lemma IsValidJSON_first_byte:
  assumes "IsValidJSON atof64 input"
  shows "first_byte input = Some (CHR ''{'') \<or> first_byte input = Some (CHR ''n'')"
proof -
  let ?ops = "zip input (scan_codes scanner_reset input)"
  from assms have u: "Unmarshal_map atof64 input = None"
    by (simp add: IsValidJSON_def split: option.splits)
  have "Unmarshal_map atof64 input \<noteq> None"
    if n: "dropWhile (\<lambda>op. snd op = scanSkipSpace) ?ops = []"
    unfolding Unmarshal_map_def Let_def n by simp
  with u obtain c code ops where d: "dropWhile (\<lambda>op. snd op = scanSkipSpace) ?ops = (c, code) # ops"
    by (cases "dropWhile (\<lambda>op. snd op = scanSkipSpace) ?ops") (blast, metis surj_pair)
  have "scan_step scanner_reset = at_BeginValue"
    by (simp add: scanner_reset_def)
  then have f: "first_byte input = Some c" and k: "code = snd (stateBeginValue scanner_reset c)"
    using first_code_is_first_byte [OF _ d] by simp_all
  from u have "code = scanBeginObject \<or> c = CHR ''n''"
    unfolding Unmarshal_map_def Let_def d by (simp split: if_splits)
  then show ?thesis
    using f k stateBeginValue_object [of scanner_reset c] by auto
qed

text \<open>
  What the two validators do. \<open>IsValidJSON\<close> is true only for a text that is valid JSON and
  whose first byte after white space is \<open>{\<close> or \<open>n\<close>; it is true of \<open>null\<close> and of \<open>{}\<close> and
  false of \<open>[]\<close>. \<open>IsValidYAML\<close> is false when \<open>YAMLToJSONStrict\<close> fails and is otherwise
  \<open>IsValidJSON\<close> of the converted text: true of \<open>a: 1\<close> where the converter turns it into
  \<open>{"a":1}\<close> and 1 converts to a \<open>float64\<close>, false of a list that the converter turns into
  \<open>[1,2]\<close>.
\<close>

lemma IsValidJSON_object_or_null:
  "(IsValidJSON atof64 input \<longrightarrow>
      checkValid input
    \<and> (first_byte input = Some (CHR ''{'') \<or> first_byte input = Some (CHR ''n'')))
 \<and> IsValidJSON atof64 ''null''
 \<and> IsValidJSON atof64 ''{}''
 \<and> \<not> IsValidJSON atof64 ''[]''
 \<and> (YAMLToJSONStrict input = Inl err \<longrightarrow> \<not> IsValidYAML YAMLToJSONStrict atof64 input)
 \<and> (YAMLToJSONStrict input = Inr jsonInput \<longrightarrow>
      IsValidYAML YAMLToJSONStrict atof64 input = IsValidJSON atof64 jsonInput)
 \<and> (YAMLToJSONStrict ''a: 1'' = Inr (''{'' @ [dquote] @ ''a'' @ [dquote] @ '':1}'') \<longrightarrow>
    atof64 ''1'' = Inr f \<longrightarrow> IsValidYAML YAMLToJSONStrict atof64 ''a: 1'')
 \<and> (YAMLToJSONStrict (''- 1'' @ [CHR 0x0A] @ ''- 2'') = Inr ''[1,2]'' \<longrightarrow>
      \<not> IsValidYAML YAMLToJSONStrict atof64 (''- 1'' @ [CHR 0x0A] @ ''- 2''))"
proof -
  have null: "IsValidJSON atof64 ''null''"
    by (simp add: Unmarshal_defs scanner_defs)
  have obj: "IsValidJSON atof64 ''{}''"
    by (simp add: Unmarshal_defs scanner_defs)
  have arr: "\<not> IsValidJSON atof64 ''[]''"
    by (simp add: Unmarshal_defs scanner_defs)
  have arr2: "\<not> IsValidJSON atof64 ''[1,2]''"
    by (simp add: Unmarshal_defs scanner_defs)
  have a1: "atof64 ''1'' = Inr f \<longrightarrow>
            IsValidJSON atof64 (''{'' @ [dquote] @ ''a'' @ [dquote] @ '':1}'')"
    by (simp add: Unmarshal_defs scanner_defs)
  have closed: "YAMLToJSONStrict input = Inl err \<longrightarrow> \<not> IsValidYAML YAMLToJSONStrict atof64 input"
    by (simp add: IsValidYAML_def)
  have conv: "YAMLToJSONStrict input = Inr jsonInput \<longrightarrow>
      IsValidYAML YAMLToJSONStrict atof64 input = IsValidJSON atof64 jsonInput"
    by (simp add: IsValidYAML_def)
  have y1: "YAMLToJSONStrict ''a: 1'' = Inr (''{'' @ [dquote] @ ''a'' @ [dquote] @ '':1}'') \<longrightarrow>
    atof64 ''1'' = Inr f \<longrightarrow> IsValidYAML YAMLToJSONStrict atof64 ''a: 1''"
    using a1 by (simp add: IsValidYAML_def)
  have y2: "YAMLToJSONStrict (''- 1'' @ [CHR 0x0A] @ ''- 2'') = Inr ''[1,2]'' \<longrightarrow>
      \<not> IsValidYAML YAMLToJSONStrict atof64 (''- 1'' @ [CHR 0x0A] @ ''- 2'')"
    using arr2 by (simp add: IsValidYAML_def)
  have valid: "IsValidJSON atof64 input \<longrightarrow> checkValid input"
    by (simp add: IsValidJSON_def Unmarshal_map_def split: option.splits if_splits)
  from IsValidJSON_first_byte [of atof64 input] valid null obj arr closed conv y1 y2
  show ?thesis
    by blast
qed

lemma IsValidJSON_object_or_null_examples:
  "IsValidJSON example_atof64 (''{'' @ [dquote] @ ''a'' @ [dquote] @ '':1}'')
 \<and> first_byte (''{'' @ [dquote] @ ''a'' @ [dquote] @ '':1}'') = Some (CHR ''{'')
 \<and> IsValidYAML example_yaml example_atof64 ''a: 1''
 \<and> \<not> IsValidYAML example_yaml example_atof64 (''- 1'' @ [CHR 0x0A] @ ''- 2'')
 \<and> \<not> IsValidYAML example_yaml example_atof64 ''{''
 \<and> IsValidYAML example_yaml example_atof64 []"
proof -
  have y: "example_yaml ''a: 1'' = Inr (''{'' @ [dquote] @ ''a'' @ [dquote] @ '':1}'')"
    "example_yaml (''- 1'' @ [CHR 0x0A] @ ''- 2'') = Inr ''[1,2]''"
    "example_yaml ''{'' = Inl (Err ''yaml: did not find expected node content'')"
    "example_yaml [] = Inr ''null''"
    by (simp_all add: example_yaml_def)
  have a: "example_atof64 ''1'' = Inr (1, 0)"
    by (simp add: example_atof64_def)
  have f: "first_byte (''{'' @ [dquote] @ ''a'' @ [dquote] @ '':1}'') = Some (CHR ''{'')"
    by (simp add: first_byte_def isSpace_def)
  show ?thesis
    using IsValidJSON_object_or_null
        [of example_atof64 "''{'' @ [dquote] @ ''a'' @ [dquote] @ '':1}''" example_yaml
           "Err ''yaml: did not find expected node content''" "''null''" "(1, 0)"]
      IsValidJSON_object_or_null
        [of example_atof64 "''a: 1''" example_yaml
           "Err ''yaml: did not find expected node content''"
           "''{'' @ [dquote] @ ''a'' @ [dquote] @ '':1}''" "(1, 0)"]
      IsValidJSON_object_or_null
        [of example_atof64 "''{''" example_yaml
           "Err ''yaml: did not find expected node content''" "''null''" "(1, 0)"]
      IsValidJSON_object_or_null
        [of example_atof64 "[]" example_yaml
           "Err ''yaml: did not find expected node content''" "''null''" "(1, 0)"]
      y a f
    by simp
qed

text \<open>
  Claim C7. The claim has \<open>IsValidJSON\<close> true only for a JSON object, with every scalar
  rejected. The code departs from it at the input \<open>null\<close>: that text is valid JSON and not
  an object, \<open>json.Unmarshal\<close> reports no error for it with a map as target, and
  \<open>IsValidJSON\<close> returns true, whatever the float conversion.
\<close>

theorem IsValidJSON_accepts_null:
  "IsValidJSON atof64 ''null'' = True
 \<and> Unmarshal_map atof64 ''null'' = None
 \<and> checkValid ''null''
 \<and> first_byte ''null'' = Some (CHR ''n'')"
  by (simp add: Unmarshal_defs scanner_defs first_byte_def)

end
